theory Spec2Isabelle
  imports Complex_Main "HOL-Library.AList"
begin

section \<open>Numbers as pandas holds them\<close>

text \<open>
  The dashboard (\<^verbatim>\<open>dashboard.py\<close>) computes over columns of pandas data frames.  A
  numeric cell is an IEEE 754 binary64 value: a finite number, a signed zero, an
  infinity or NaN (which pandas also uses for a missing entry).  A finite value is
  modelled by the rational number it denotes, \<open>Fin 0\<close> being \<open>+0.0\<close> and \<open>NegZero\<close>
  being \<open>-0.0\<close>.  A column of whole numbers is read as the numbers it holds, which
  binary64 represents exactly below \<open>2^53\<close>.
\<close>

datatype f64 = Fin rat | NegZero | PosInf | NegInf | NaN

fun isna :: "f64 \<Rightarrow> bool" where
  "isna NaN = True"
| "isna _ = False"

fun is_inf :: "f64 \<Rightarrow> bool" where
  "is_inf PosInf = True"
| "is_inf NegInf = True"
| "is_inf _ = False"

fun is_zero :: "f64 \<Rightarrow> bool" where
  "is_zero (Fin q) = (q = 0)"
| "is_zero NegZero = True"
| "is_zero _ = False"

text \<open>The sign bit (of no consequence for NaN).\<close>

fun is_neg :: "f64 \<Rightarrow> bool" where
  "is_neg (Fin q) = (q < 0)"
| "is_neg NegZero = True"
| "is_neg NegInf = True"
| "is_neg _ = False"

text \<open>The number a finite value denotes.\<close>

fun the_rat :: "f64 \<Rightarrow> rat" where
  "the_rat (Fin q) = q"
| "the_rat _ = 0"

definition zero_signed :: "bool \<Rightarrow> f64" where
  "zero_signed neg = (if neg then NegZero else Fin 0)"

definition inf_signed :: "bool \<Rightarrow> f64" where
  "inf_signed neg = (if neg then NegInf else PosInf)"

subsection \<open>Comparison\<close>

text \<open>
  IEEE comparison: NaN compares false with everything, the two zeros are equal, the
  infinities lie beyond every finite value.
\<close>

fun f64_less :: "f64 \<Rightarrow> f64 \<Rightarrow> bool" where
  "f64_less NaN y = False"
| "f64_less x NaN = False"
| "f64_less x NegInf = False"
| "f64_less PosInf y = False"
| "f64_less NegInf y = True"
| "f64_less x PosInf = True"
| "f64_less x y = (the_rat x < the_rat y)"

definition f64_le :: "f64 \<Rightarrow> f64 \<Rightarrow> bool" where
  "f64_le x y = (\<not> isna x \<and> \<not> isna y \<and> \<not> f64_less y x)"

subsection \<open>Rounding to binary64\<close>

text \<open>
  Arithmetic on binary64 returns the exact result rounded to the nearest representable
  value, ties to the even significand.  \<open>bitlen n\<close> is the number of binary digits of a
  positive integer; \<open>ilog2 p q\<close> is the exponent \<open>e\<close> with \<open>2^e \<le> p/q < 2^(e+1)\<close>.
\<close>

function bitlen :: "int \<Rightarrow> int" where
  "bitlen n = (if n \<le> 0 then 0 else 1 + bitlen (n div 2))"
  by pat_completeness auto
termination
  by (relation "measure nat") auto

declare bitlen.simps [simp del]

definition ilog2 :: "int \<Rightarrow> int \<Rightarrow> int" where
  "ilog2 p q = (let d = bitlen p - bitlen q
                in if (if 0 \<le> d then q * 2 ^ nat d \<le> p else q \<le> p * 2 ^ nat (- d))
                   then d else d - 1)"

text \<open>The quotient \<open>n / d\<close> of two positive integers, rounded to an integer, ties to even.\<close>

definition div_half_even :: "int \<Rightarrow> int \<Rightarrow> int" where
  "div_half_even n d = (let k = n div d; r = n mod d
                        in if 2 * r < d then k
                           else if d < 2 * r then k + 1
                           else if even k then k else k + 1)"

definition scale2 :: "int \<Rightarrow> int \<Rightarrow> rat" where
  "scale2 m e = (if 0 \<le> e then of_int (m * 2 ^ nat e) else Fract m (2 ^ nat (- e)))"

text \<open>
  A significand has 53 bits; the least exponent of a normal number is \<open>-1022\<close>, below
  which the spacing stays \<open>2^-1074\<close> (subnormal numbers); a result that rounds to
  \<open>2^1024\<close> or more overflows to an infinity; a nonzero number that rounds to nothing
  keeps its sign on the zero.
\<close>

definition round_f64 :: "rat \<Rightarrow> f64" where
  "round_f64 x = (if x = 0 then Fin 0 else
     let (n, q) = quotient_of x;
         p = \<bar>n\<bar>;
         e = max (ilog2 p q) (- 1022) - 52;
         m = (if 0 \<le> e then div_half_even p (q * 2 ^ nat e)
              else div_half_even (p * 2 ^ nat (- e)) q)
     in if 0 \<le> e \<and> 2 ^ 1024 \<le> m * 2 ^ nat e then inf_signed (n < 0)
        else if m = 0 then zero_signed (n < 0)
        else Fin (scale2 (if 0 < n then m else - m) e))"

subsection \<open>Arithmetic\<close>

definition fadd :: "f64 \<Rightarrow> f64 \<Rightarrow> f64" where
  "fadd x y = (if isna x \<or> isna y then NaN
     else if is_inf x then (if is_inf y \<and> x \<noteq> y then NaN else x)
     else if is_inf y then y
     else if is_zero x \<and> is_zero y then zero_signed (is_neg x \<and> is_neg y)
     else round_f64 (the_rat x + the_rat y))"

definition fmul :: "f64 \<Rightarrow> f64 \<Rightarrow> f64" where
  "fmul x y = (if isna x \<or> isna y then NaN
     else if is_inf x \<or> is_inf y then
       (if is_zero x \<or> is_zero y then NaN else inf_signed (is_neg x \<noteq> is_neg y))
     else if is_zero x \<or> is_zero y then zero_signed (is_neg x \<noteq> is_neg y)
     else round_f64 (the_rat x * the_rat y))"

text \<open>
  Division of numpy scalars does not raise on a zero divisor: it yields an infinity,
  or NaN for \<open>0/0\<close>.
\<close>

definition fdiv :: "f64 \<Rightarrow> f64 \<Rightarrow> f64" where
  "fdiv x y = (if isna x \<or> isna y then NaN
     else if is_inf x then (if is_inf y then NaN else inf_signed (is_neg x \<noteq> is_neg y))
     else if is_inf y then zero_signed (is_neg x \<noteq> is_neg y)
     else if is_zero y then (if is_zero x then NaN else inf_signed (is_neg x \<noteq> is_neg y))
     else if is_zero x then zero_signed (is_neg x \<noteq> is_neg y)
     else round_f64 (the_rat x / the_rat y))"

subsection \<open>Formatting\<close>

definition digit_char :: "int \<Rightarrow> char" where
  "digit_char d = ''0123456789'' ! nat d"

text \<open>The decimal digits of a natural number, as Python's \<^verbatim>\<open>str\<close> writes them.\<close>

function str_int :: "int \<Rightarrow> string" where
  "str_int n = (if n < 10 then [digit_char n] else str_int (n div 10) @ [digit_char (n mod 10)])"
  by pat_completeness auto
termination
  by (relation "measure nat") auto

declare str_int.simps [simp del]

text \<open>
  The format specification \<^verbatim>\<open>,\<close> of a natural number: its decimal digits with a comma
  between groups of three, counted from the right.
\<close>

definition pad3 :: "int \<Rightarrow> string" where
  "pad3 n = [digit_char (n div 100), digit_char (n div 10 mod 10), digit_char (n mod 10)]"

function format_comma :: "int \<Rightarrow> string" where
  "format_comma n = (if n < 1000 then str_int n
                     else format_comma (n div 1000) @ '','' @ pad3 (n mod 1000))"
  by pat_completeness auto
termination
  by (relation "measure nat") auto

declare format_comma.simps [simp del]

text \<open>
  The format specification \<^verbatim>\<open>.1f\<close> of a float: the exact value rounded to one decimal,
  ties to even; a minus sign for every value with the sign bit, also when it rounds to
  zero.
\<close>

definition format_1f :: "f64 \<Rightarrow> string" where
  "format_1f x = (case x of
       NaN \<Rightarrow> ''nan''
     | PosInf \<Rightarrow> ''inf''
     | NegInf \<Rightarrow> ''-inf''
     | NegZero \<Rightarrow> ''-0.0''
     | Fin q \<Rightarrow>
         (let (n, d) = quotient_of \<bar>q\<bar>;
              t = div_half_even (10 * n) d
          in (if q < 0 then ''-'' else '''') @ str_int (t div 10) @ ''.'' @ [digit_char (t mod 10)]))"

section \<open>Data frames\<close>

text \<open>
  A column is numeric, or categorical: a list of category labels and, for each row,
  one of the labels or nothing (a missing entry).  A data frame has a number of rows
  and named columns; assigning to a name replaces the column of that name where it
  stands, or appends a new one.
\<close>

record categorical =
  categories :: "string list"
  codes :: "string option list"

datatype column = Numeric "f64 list" | Categorical categorical

record dataframe =
  nrows :: nat
  columns :: "(string \<times> column) list"

text \<open>Exceptions, each with the text that \<^verbatim>\<open>str\<close> gives for it.\<close>

datatype py_exception =
    FileNotFoundError string
  | PermissionError string
  | ArrowInvalid string
  | OtherException string
  | TypeError string
  | ValueError string

fun str_exception :: "py_exception \<Rightarrow> string" where
  "str_exception (FileNotFoundError m) = m"
| "str_exception (PermissionError m) = m"
| "str_exception (ArrowInvalid m) = m"
| "str_exception (OtherException m) = m"
| "str_exception (TypeError m) = m"
| "str_exception (ValueError m) = m"

text \<open>\<^verbatim>\<open>len(df)\<close>, \<^verbatim>\<open>name in df.columns\<close>, \<^verbatim>\<open>df[name] = col\<close>.\<close>

definition len_df :: "dataframe \<Rightarrow> int" where
  "len_df df = int (nrows df)"

definition has_column :: "dataframe \<Rightarrow> string \<Rightarrow> bool" where
  "has_column df name = (map_of (columns df) name \<noteq> None)"

definition setitem :: "dataframe \<Rightarrow> string \<Rightarrow> column \<Rightarrow> dataframe" where
  "setitem df name col = df\<lparr>columns := AList.update name col (columns df)\<rparr>"

subsection \<open>\<^verbatim>\<open>pd.cut\<close>\<close>

text \<open>
  numpy sorts NaN after every number.  \<open>searchsorted_left edges v\<close> is the index at
  which \<open>v\<close> would be inserted into the increasing \<open>edges\<close>, before any equal entry: the
  number of edges below \<open>v\<close>.
\<close>

definition np_less :: "f64 \<Rightarrow> f64 \<Rightarrow> bool" where
  "np_less a v = (if isna v then \<not> isna a else f64_less a v)"

definition searchsorted_left :: "f64 list \<Rightarrow> f64 \<Rightarrow> nat" where
  "searchsorted_left edges v = length (takeWhile (\<lambda>a. np_less a v) edges)"

fun increasing :: "f64 list \<Rightarrow> bool" where
  "increasing (a # b # bs) = (f64_less a b \<and> increasing (b # bs))"
| "increasing _ = True"

text \<open>
  \<^verbatim>\<open>pd.cut(x, bins=edges, labels=labels)\<close> with its defaults \<^verbatim>\<open>right=True\<close> and
  \<^verbatim>\<open>include_lowest=False\<close>: a value gets the label of the interval its insertion index
  points to; a missing value, a value beyond the last edge and a value at or below the
  first edge get no label.  A categorical with text labels cannot be cut.
\<close>

definition cut :: "column \<Rightarrow> f64 list \<Rightarrow> string list \<Rightarrow> py_exception + categorical" where
  "cut x edges labels = (case x of
       Categorical c \<Rightarrow> Inl (TypeError ''not supported between float and str'')
     | Numeric xs \<Rightarrow>
         if \<not> increasing edges then Inl (ValueError ''bins must increase monotonically.'')
         else if length labels + 1 \<noteq> length edges then
           Inl (ValueError ''Bin labels must be one fewer than the number of bin edges'')
         else Inr \<lparr>categories = labels,
                   codes = map (\<lambda>v. let ids = searchsorted_left edges v
                                    in if isna v \<or> ids = length edges \<or> ids = 0 then None
                                       else Some (labels ! (ids - 1))) xs\<rparr>)"

subsection \<open>Counting\<close>

text \<open>
  \<^verbatim>\<open>value_counts()\<close> of a categorical series: for every category the number of rows
  that carry it; rows without a label are dropped.  pandas returns the counts sorted,
  in an order among equal counts that it does not fix; the result is modelled as the
  mapping from labels to counts.
\<close>

definition value_counts :: "categorical \<Rightarrow> (string \<rightharpoonup> nat)" where
  "value_counts c = map_of (map (\<lambda>l. (l, count_list (codes c) (Some l))) (categories c))"

text \<open>
  \<^verbatim>\<open>nunique()\<close>: the number of distinct entries, missing ones left out; the two zeros are
  one number.
\<close>

fun canon :: "f64 \<Rightarrow> f64" where
  "canon NegZero = Fin 0"
| "canon x = x"

definition nunique :: "column \<Rightarrow> int" where
  "nunique c = (case c of
       Numeric xs \<Rightarrow> int (length (remdups (map canon (filter (\<lambda>x. \<not> isna x) xs))))
     | Categorical k \<Rightarrow> int (length (remdups (filter (\<lambda>x. x \<noteq> None) (codes k)))))"

subsection \<open>Sum and mean\<close>

text \<open>
  \<^verbatim>\<open>sum()\<close> and \<^verbatim>\<open>mean()\<close> skip missing entries: they are replaced by zero before the
  entries are added up, and the mean divides by the number of entries present.  The
  additions are done by numpy's reduction, which does not fix the order in which it
  associates them (and so not the rounding of the total); the reduction is therefore a
  parameter \<open>add_reduce\<close> of everything that sums.  A categorical column has no sum.
\<close>

definition fillna0 :: "f64 list \<Rightarrow> f64 list" where
  "fillna0 xs = map (\<lambda>x. if isna x then Fin 0 else x) xs"

definition series_sum :: "(f64 list \<Rightarrow> f64) \<Rightarrow> column \<Rightarrow> py_exception + f64" where
  "series_sum add_reduce c = (case c of
       Numeric xs \<Rightarrow> Inr (add_reduce (fillna0 xs))
     | Categorical k \<Rightarrow> Inl (TypeError ''category does not support reduction sum''))"

definition series_mean :: "(f64 list \<Rightarrow> f64) \<Rightarrow> column \<Rightarrow> py_exception + f64" where
  "series_mean add_reduce c = (case c of
       Numeric xs \<Rightarrow>
         (let count = length (filter (\<lambda>x. \<not> isna x) xs);
              the_sum = add_reduce (fillna0 xs)
          in Inr (if 0 < count then fdiv the_sum (round_f64 (of_nat count)) else NaN))
     | Categorical k \<Rightarrow> Inl (TypeError ''category does not support reduction mean''))"

text \<open>
  What the reduction may be: the entries are added up in binary64, in an order and a
  bracketing that numpy chooses (it adds in blocks and in several lanes), possibly
  starting from the zero that is the identity of addition.  \<open>sums_to xs s\<close> says that
  \<open>s\<close> is the outcome of such an adding up of the entries \<open>xs\<close>: any two of the values
  at hand are replaced by their rounded sum until one value is left.  A column of whole
  numbers is summed in integer arithmetic, without rounding; every adding up in
  binary64 gives that same sum as long as no entry is negative and the sum stays below
  \<open>2^53\<close> (lemma \<open>sums_to_exact\<close> below), and larger integer sums are not modelled.
\<close>

inductive sums_to :: "f64 list \<Rightarrow> f64 \<Rightarrow> bool" where
  nothing: "sums_to [] (Fin 0)"
| single: "sums_to [x] x"
| pair: "sums_to (us @ fadd a b # vs @ ws) s \<Longrightarrow> sums_to (us @ a # vs @ b # ws) s"
| identity: "sums_to (Fin 0 # xs) s \<Longrightarrow> sums_to xs s"

definition reduction :: "(f64 list \<Rightarrow> f64) \<Rightarrow> bool" where
  "reduction add_reduce = (\<forall>xs. sums_to xs (add_reduce xs))"

text \<open>
  One such reduction, used in the examples: the entries added from left to right in
  binary64, starting from \<open>0.0\<close>.
\<close>

definition sequential_sum :: "f64 list \<Rightarrow> f64" where
  "sequential_sum xs = foldl fadd (Fin 0) xs"

section \<open>The page\<close>

text \<open>
  What a run of the script shows is the list of the elements it emits, in order; the
  containers they are laid out in (sidebar, columns) are not modelled.  A pie chart is
  given the label counts, a title and the two trace settings.
\<close>

record pie =
  slices :: "string \<rightharpoonup> nat"
  title :: string
  textposition :: string
  textinfo :: string

datatype element =
    Markdown string
  | Success string
  | Checkbox string
  | Button string
  | Metric string string
  | Plotly_chart pie
  | Info string
  | Error string

text \<open>The three tables a run works on; \<open>None\<close> is Python's \<^verbatim>\<open>None\<close>.\<close>

record tables =
  games :: "dataframe option"
  reviews :: "dataframe option"
  logs :: "dataframe option"

text \<open>The pictographs of the captions, as their UTF-8 bytes.\<close>

definition video_game :: string where
  "video_game = [CHR 0xF0, CHR 0x9F, CHR 0x8E, CHR 0xAE]"

definition bar_chart :: string where
  "bar_chart = [CHR 0xF0, CHR 0x9F, CHR 0x93, CHR 0x8A]"

definition arrows :: string where
  "arrows = [CHR 0xF0, CHR 0x9F, CHR 0x94, CHR 0x84]"

definition file_folder :: string where
  "file_folder = [CHR 0xF0, CHR 0x9F, CHR 0x93, CHR 0x81]"

definition busts :: string where
  "busts = [CHR 0xF0, CHR 0x9F, CHR 0x91, CHR 0xA5]"

subsection \<open>Loading (\<^verbatim>\<open>load_data\<close>, lines 39-48)\<close>

text \<open>
  The storage is what \<^verbatim>\<open>pd.read_parquet\<close> yields for a path at the moment of the call:
  a table, or the exception it raises.  A session holds the cache that
  \<^verbatim>\<open>st.cache_data\<close> keeps for \<^verbatim>\<open>load_data\<close> and the log of the paths read so far.
\<close>

type_synonym storage = "string \<Rightarrow> py_exception + dataframe"

record session =
  cache :: "(element list \<times> tables) option"
  reads :: "string list"

definition read_parquet ::
  "storage \<Rightarrow> string \<Rightarrow> session \<Rightarrow> (py_exception + dataframe) \<times> session" where
  "read_parquet fs path s = (fs path, s\<lparr>reads := reads s @ [path]\<rparr>)"

definition games_path :: string where
  "games_path = ''steam-gaming-dashboard/games.parquet''"

definition reviews_path :: string where
  "reviews_path = ''steam-gaming-dashboard/reviews.parquet''"

definition logs_path :: string where
  "logs_path = ''steam-gaming-dashboard/logs.parquet''"

text \<open>The handler of \<^verbatim>\<open>except Exception as e\<close>.\<close>

definition load_failed :: "py_exception \<Rightarrow> element list \<times> tables" where
  "load_failed e = ([Error (''Error loading data: '' @ str_exception e)],
                    \<lparr>games = None, reviews = None, logs = None\<rparr>)"

text \<open>
  The body of \<^verbatim>\<open>load_data\<close>: the result is the elements it shows and the tables it
  returns, or (\<open>Inl\<close>) an exception that leaves the function.
\<close>

definition load_data ::
  "storage \<Rightarrow> session \<Rightarrow> (py_exception + element list \<times> tables) \<times> session" where
  "load_data fs s =
     (case read_parquet fs games_path s of
        (Inl e, s1) \<Rightarrow> (Inr (load_failed e), s1)
      | (Inr games_df, s1) \<Rightarrow>
          (case read_parquet fs reviews_path s1 of
             (Inl e, s2) \<Rightarrow> (Inr (load_failed e), s2)
           | (Inr reviews_df, s2) \<Rightarrow>
               (case read_parquet fs logs_path s2 of
                  (Inl e, s3) \<Rightarrow> (Inr (load_failed e), s3)
                | (Inr logs_df, s3) \<Rightarrow>
                    (Inr ([], \<lparr>games = Some games_df, reviews = Some reviews_df,
                                logs = Some logs_df\<rparr>), s3))))"

text \<open>
  The decorator \<^verbatim>\<open>@st.cache_data\<close>: the first call runs the body and stores what it
  returned and showed; a later call returns a copy of the stored tables and shows the
  stored elements again, without running the body.  \<^verbatim>\<open>st.cache_data.clear()\<close> empties
  the cache.
\<close>

definition load_data_cached ::
  "storage \<Rightarrow> session \<Rightarrow> (py_exception + element list \<times> tables) \<times> session" where
  "load_data_cached fs s =
     (case cache s of
        Some hit \<Rightarrow> (Inr hit, s)
      | None \<Rightarrow>
          (case load_data fs s of
             (Inr res, s') \<Rightarrow> (Inr res, s'\<lparr>cache := Some res\<rparr>)
           | (Inl e, s') \<Rightarrow> (Inl e, s')))"

definition cache_clear :: "session \<Rightarrow> session" where
  "cache_clear s = s\<lparr>cache := None\<rparr>"

text \<open>Calls of the loader one after the other, each on the storage as it then is.\<close>

fun load_repeatedly ::
  "storage list \<Rightarrow> session \<Rightarrow> (py_exception + element list \<times> tables) list \<times> session" where
  "load_repeatedly [] s = ([], s)"
| "load_repeatedly (fs # rest) s =
     (let (r, s1) = load_data_cached fs s;
          (rs, s2) = load_repeatedly rest s1
      in (r # rs, s2))"

subsection \<open>The metrics and the chart (\<^verbatim>\<open>main\<close>, lines 71-136)\<close>

text \<open>The column of a name, when the table is there and has it.\<close>

definition column_of :: "dataframe option \<Rightarrow> string \<Rightarrow> column option" where
  "column_of df name = (case df of None \<Rightarrow> None | Some d \<Rightarrow> map_of (columns d) name)"

definition len_or_0 :: "dataframe option \<Rightarrow> int" where
  "len_or_0 df = (case df of Some d \<Rightarrow> len_df d | None \<Rightarrow> 0)"

text \<open>Lines 75-85.\<close>

definition count_metrics :: "tables \<Rightarrow> element list" where
  "count_metrics t =
     [Metric ''Total Games'' (format_comma (len_or_0 (games t))),
      Metric ''Total Reviews'' (format_comma (len_or_0 (reviews t))),
      Metric ''Log Entries'' (format_comma (len_or_0 (logs t)))]"

text \<open>Lines 88-92.\<close>

definition avg_playtime_metric ::
  "(f64 list \<Rightarrow> f64) \<Rightarrow> dataframe option \<Rightarrow> py_exception + element" where
  "avg_playtime_metric add_reduce reviews_df =
     (case column_of reviews_df ''playtime_hours'' of
        Some col \<Rightarrow>
          (case series_mean add_reduce col of
             Inl e \<Rightarrow> Inl e
           | Inr avg_playtime \<Rightarrow> Inr (Metric ''Avg Playtime'' (format_1f avg_playtime @ ''h'')))
      | None \<Rightarrow> Inr (Metric ''Avg Playtime'' ''N/A''))"

text \<open>
  Lines 100-117.  The bucket column is stored in the reviews table, whose new state is
  returned with the element shown.
\<close>

definition playtime_edges :: "f64 list" where
  "playtime_edges = [Fin 0, Fin 10, Fin 50, Fin 100, PosInf]"

definition playtime_labels :: "string list" where
  "playtime_labels = [''0-10h'', ''10-50h'', ''50-100h'', ''100h+'']"

definition playtime_distribution ::
  "dataframe option \<Rightarrow> py_exception + element \<times> dataframe option" where
  "playtime_distribution reviews_df =
     (case reviews_df of
        None \<Rightarrow> Inr (Info ''Playtime data not available'', reviews_df)
      | Some df \<Rightarrow>
          (case map_of (columns df) ''playtime_hours'' of
             None \<Rightarrow> Inr (Info ''Playtime data not available'', reviews_df)
           | Some col \<Rightarrow>
               (case cut col playtime_edges playtime_labels of
                  Inl e \<Rightarrow> Inl e
                | Inr playtime_bin \<Rightarrow>
                    Inr (Plotly_chart \<lparr>slices = value_counts playtime_bin,
                                        title = ''Playtime Distribution'',
                                        textposition = ''inside'',
                                        textinfo = ''percent+label''\<rparr>,
                         Some (setitem df ''playtime_bin'' (Categorical playtime_bin))))))"

text \<open>Lines 121-125.\<close>

definition active_players_metric :: "dataframe option \<Rightarrow> element" where
  "active_players_metric logs_df =
     (case column_of logs_df ''player_id'' of
        Some col \<Rightarrow> Metric ''Active Players'' (format_comma (nunique col))
      | None \<Rightarrow> Metric ''Active Players'' ''N/A'')"

text \<open>Lines 128-136.\<close>

definition sentiment_score_metric ::
  "(f64 list \<Rightarrow> f64) \<Rightarrow> dataframe option \<Rightarrow> py_exception + element" where
  "sentiment_score_metric add_reduce reviews_df =
     (case reviews_df of
        None \<Rightarrow> Inr (Metric ''Sentiment Score'' ''N/A'')
      | Some df \<Rightarrow>
          (case (map_of (columns df) ''helpful_votes'', map_of (columns df) ''total_votes'') of
             (Some helpful_votes, Some total_votes) \<Rightarrow>
               (case series_sum add_reduce helpful_votes of
                  Inl e \<Rightarrow> Inl e
                | Inr h \<Rightarrow>
                    (case series_sum add_reduce total_votes of
                       Inl e \<Rightarrow> Inl e
                     | Inr t \<Rightarrow>
                         Inr (Metric ''Sentiment Score''
                               (format_1f (fmul (fdiv h t) (Fin 100)) @ ''%''))))
           | _ \<Rightarrow> Inr (Metric ''Sentiment Score'' ''62.4%'')))"

subsection \<open>A run of \<^verbatim>\<open>main\<close> (lines 51-140)\<close>

text \<open>
  What a run reads from its surroundings: whether the refresh button was pressed, and
  the time of day as \<^verbatim>\<open>strftime('%H:%M:%S')\<close> writes it.  A run ends by reaching the
  end of \<^verbatim>\<open>main\<close>, by \<^verbatim>\<open>st.rerun()\<close>, or by an exception; the elements emitted until
  then are on the page.
\<close>

record env =
  refresh_clicked :: bool
  clock :: string

datatype ending = Completed | Rerun | Raised py_exception

record page =
  elements :: "element list"
  ending :: ending
  after :: tables

definition sidebar :: "element list" where
  "sidebar = [Markdown (''### '' @ bar_chart @ '' System Status''),
              Success ''Analytics API: Online'',
              Checkbox ''Auto Refresh (30s)'',
              Button (arrows @ '' Refresh Now'')]"

definition data_files_not_found :: "element list" where
  "data_files_not_found =
     [Error (file_folder @ '' Data files not found! Please ensure parquet files are in the project directory.''),
      Info ''Required files: games.parquet, reviews.parquet, logs.parquet'']"

text \<open>Lines 60-140: what \<^verbatim>\<open>main\<close> does with the three tables once they are loaded.\<close>

definition main_body :: "(f64 list \<Rightarrow> f64) \<Rightarrow> env \<Rightarrow> tables \<Rightarrow> page" where
  "main_body add_reduce ev t =
     (case games t of
        None \<Rightarrow> \<lparr>elements = data_files_not_found, ending = Completed, after = t\<rparr>
      | Some games_df \<Rightarrow>
          if refresh_clicked ev then \<lparr>elements = sidebar, ending = Rerun, after = t\<rparr>
          else
            let shown1 = sidebar @ [Markdown (''**Last Updated:** '' @ clock ev),
                                    Markdown (''### '' @ bar_chart @ '' Overview Metrics'')]
                         @ count_metrics t
            in (case avg_playtime_metric add_reduce (reviews t) of
                  Inl e \<Rightarrow> \<lparr>elements = shown1, ending = Raised e, after = t\<rparr>
                | Inr avg \<Rightarrow>
                    let shown2 = shown1 @ [avg,
                                   Markdown (''### '' @ busts @ '' Player Analytics''),
                                   Markdown ''**Player Playtime Distribution**'']
                    in (case playtime_distribution (reviews t) of
                          Inl e \<Rightarrow> \<lparr>elements = shown2, ending = Raised e, after = t\<rparr>
                        | Inr (chart, reviews_df) \<Rightarrow>
                            let t' = t\<lparr>reviews := reviews_df\<rparr>;
                                shown3 = shown2 @ [chart, active_players_metric (logs t')]
                            in (case sentiment_score_metric add_reduce (reviews t') of
                                  Inl e \<Rightarrow> \<lparr>elements = shown3, ending = Raised e, after = t'\<rparr>
                                | Inr sentiment \<Rightarrow>
                                    \<lparr>elements = shown3 @ [sentiment], ending = Completed,
                                     after = t'\<rparr>))))"

definition header :: "element list" where
  \<open>header = [Markdown (''<div class="main-header">'' @ video_game
                        @ '' Gaming Analytics Dashboard</div>''),
             Markdown ''*Real-time insights dari Steam gaming data lakehouse*'']\<close>

text \<open>
  A run of \<^verbatim>\<open>main\<close> in a session: the header, the (cached) load, the body; a press of
  the refresh button empties the cache before the run is abandoned for a new one.
\<close>

definition main ::
  "(f64 list \<Rightarrow> f64) \<Rightarrow> storage \<Rightarrow> env \<Rightarrow> session \<Rightarrow> (py_exception + page) \<times> session" where
  "main add_reduce fs ev s =
     (case load_data_cached fs s of
        (Inl e, s') \<Rightarrow> (Inl e, s')
      | (Inr (shown, t), s') \<Rightarrow>
          (let p = main_body add_reduce ev t
           in (Inr (p\<lparr>elements := header @ shown @ elements p\<rparr>),
               if ending p = Rerun then cache_clear s' else s')))"

section \<open>Notions used to state the properties\<close>

text \<open>
  The values of the metrics with a given label among the elements of a page, and the
  charts among them.
\<close>

fun metric_values :: "string \<Rightarrow> element list \<Rightarrow> string list" where
  "metric_values l [] = []"
| "metric_values l (Metric k v # es) =
     (if k = l then v # metric_values l es else metric_values l es)"
| "metric_values l (e # es) = metric_values l es"

fun charts :: "element list \<Rightarrow> pie list" where
  "charts [] = []"
| "charts (Plotly_chart p # es) = p # charts es"
| "charts (e # es) = charts es"

text \<open>A column that is numeric, if it is there at all.\<close>

definition numeric_or_absent :: "column option \<Rightarrow> bool" where
  "numeric_or_absent c = (case c of Some (Categorical k) \<Rightarrow> False | _ \<Rightarrow> True)"

text \<open>Entries that are whole numbers, none of them negative.\<close>

definition whole_numbers :: "f64 list \<Rightarrow> bool" where
  "whole_numbers xs = (\<forall>x \<in> set xs. \<exists>k. 0 \<le> k \<and> x = Fin (of_int k))"


text \<open>
  The interval \<open>(lo, hi]\<close>, open on the left and closed on the right, and the label
  of the interval of the histogram that a playtime lies in.
\<close>

definition in_bin :: "f64 \<Rightarrow> f64 \<Rightarrow> f64 \<Rightarrow> bool" where
  "in_bin lo hi v = (f64_less lo v \<and> f64_le v hi)"

definition playtime_label :: "f64 \<Rightarrow> string option" where
  "playtime_label v =
     (if in_bin (Fin 0) (Fin 10) v then Some ''0-10h''
      else if in_bin (Fin 10) (Fin 50) v then Some ''10-50h''
      else if in_bin (Fin 50) (Fin 100) v then Some ''50-100h''
      else if in_bin (Fin 100) PosInf v then Some ''100h+''
      else None)"

text \<open>
  The interval \<open>[lo, hi)\<close>, closed on the left and open on the right: the bins as the
  specification words them.
\<close>

definition in_right_open :: "f64 \<Rightarrow> f64 \<Rightarrow> f64 \<Rightarrow> bool" where
  "in_right_open lo hi v = (f64_le lo v \<and> f64_less v hi)"

text \<open>The entries of a column that are present, the two zeros taken as one number.\<close>

definition present_numbers :: "f64 list \<Rightarrow> f64 set" where
  "present_numbers xs = canon ` (set xs - {NaN})"

definition present_labels :: "string option list \<Rightarrow> string set" where
  "present_labels cs = {l. Some l \<in> set cs}"

subsection \<open>Example tables\<close>

definition games_example :: dataframe where
  "games_example = \<lparr>nrows = 1234, columns = [(''name'', Numeric [])]\<rparr>"

definition reviews_example :: dataframe where
  "reviews_example =
     \<lparr>nrows = 4,
      columns = [(''playtime_hours'', Numeric [Fin 5, Fin 15, Fin 60, Fin 150]),
                 (''helpful_votes'', Numeric [Fin 30, Fin 50, Fin 0, Fin 0]),
                 (''total_votes'', Numeric [Fin 40, Fin 60, Fin 0, Fin 0])]\<rparr>"


definition reviews_no_votes :: dataframe where
  "reviews_no_votes =
     \<lparr>nrows = 2,
      columns = [(''helpful_votes'', Numeric [Fin 3, Fin 4]),
                 (''total_votes'', Numeric [Fin 0, Fin 0])]\<rparr>"

definition reviews_bare :: dataframe where
  "reviews_bare = \<lparr>nrows = 3, columns = [(''review_id'', Numeric [Fin 1, Fin 2, Fin 3])]\<rparr>"

definition logs_example :: dataframe where
  "logs_example =
     \<lparr>nrows = 4, columns = [(''player_id'', Numeric [Fin 1, Fin 1, Fin 2, Fin 3])]\<rparr>"

definition logs_named :: dataframe where
  "logs_named =
     \<lparr>nrows = 4,
      columns = [(''player_id'',
                  Categorical \<lparr>categories = [''ann'', ''bob'', ''cy''],
                               codes = [Some ''ann'', Some ''bob'', None, Some ''ann'']\<rparr>)]\<rparr>"

definition env_example :: env where
  "env_example = \<lparr>refresh_clicked = False, clock = ''12:00:00''\<rparr>"

definition storage_example :: storage where
  "storage_example path =
     (if path = games_path then Inr games_example
      else if path = reviews_path then Inr reviews_example
      else if path = logs_path then Inr logs_example
      else Inl (FileNotFoundError ''No such file or directory''))"

definition storage_missing :: storage where
  "storage_missing path =
     (if path = games_path then Inr games_example
      else Inl (FileNotFoundError ''No such file or directory''))"

definition tables_example :: tables where
  "tables_example =
     \<lparr>games = Some games_example, reviews = Some reviews_example, logs = Some logs_example\<rparr>"

definition tables_bare :: tables where
  "tables_bare =
     \<lparr>games = Some games_example, reviews = Some reviews_bare, logs = Some reviews_bare\<rparr>"

definition tables_games_only :: tables where
  "tables_games_only = \<lparr>games = Some games_example, reviews = None, logs = None\<rparr>"

definition tables_absent :: tables where
  "tables_absent = \<lparr>games = None, reviews = None, logs = None\<rparr>"

definition tables_named :: tables where
  "tables_named =
     \<lparr>games = Some games_example, reviews = Some reviews_example, logs = Some logs_named\<rparr>"


definition session_start :: session where
  "session_start = \<lparr>cache = None, reads = []\<rparr>"

section \<open>The playtime histogram\<close>

lemma in_bin_Fin [simp]: "in_bin (Fin a) (Fin b) (Fin q) = (a < q \<and> q \<le> b)"
  by (auto simp: in_bin_def f64_le_def)

lemma in_right_open_Fin [simp]: "in_right_open (Fin a) (Fin b) (Fin q) = (a \<le> q \<and> q < b)"
  by (auto simp: in_right_open_def f64_le_def)

lemma increasing_playtime_edges: "increasing playtime_edges"
  by (simp add: playtime_edges_def)

lemma cut_code_playtime:
  "(let ids = searchsorted_left playtime_edges v
    in if isna v \<or> ids = length playtime_edges \<or> ids = 0 then None
       else Some (playtime_labels ! (ids - 1))) = playtime_label v"
  by (cases v)
     (auto simp: searchsorted_left_def playtime_edges_def playtime_labels_def playtime_label_def
                 np_less_def in_bin_def f64_le_def Let_def)

lemma cut_playtime:
  "cut (Numeric xs) playtime_edges playtime_labels =
     Inr \<lparr>categories = playtime_labels, codes = map playtime_label xs\<rparr>"
  using cut_code_playtime
  by (simp add: cut_def increasing_playtime_edges)
     (simp add: playtime_labels_def playtime_edges_def)

lemma count_list_map: "count_list (map f xs) y = length (filter (\<lambda>x. f x = y) xs)"
  by (induction xs) auto


lemma playtime_label_eq:
  "playtime_label v = Some ''0-10h'' \<longleftrightarrow> in_bin (Fin 0) (Fin 10) v"
  "playtime_label v = Some ''10-50h'' \<longleftrightarrow> in_bin (Fin 10) (Fin 50) v"
  "playtime_label v = Some ''50-100h'' \<longleftrightarrow> in_bin (Fin 50) (Fin 100) v"
  "playtime_label v = Some ''100h+'' \<longleftrightarrow> in_bin (Fin 100) PosInf v"
  by (cases v; auto simp: playtime_label_def in_bin_def f64_le_def)+

lemma value_counts_playtime:
  "value_counts \<lparr>categories = playtime_labels, codes = map playtime_label xs\<rparr> =
     map_of [(''0-10h'', length (filter (in_bin (Fin 0) (Fin 10)) xs)),
             (''10-50h'', length (filter (in_bin (Fin 10) (Fin 50)) xs)),
             (''50-100h'', length (filter (in_bin (Fin 50) (Fin 100)) xs)),
             (''100h+'', length (filter (in_bin (Fin 100) PosInf) xs))]"
  by (simp add: value_counts_def playtime_labels_def count_list_map playtime_label_eq)

lemma playtime_distribution_numeric:
  assumes "map_of (columns df) ''playtime_hours'' = Some (Numeric xs)"
  shows "playtime_distribution (Some df) =
           Inr (Plotly_chart \<lparr>slices = value_counts \<lparr>categories = playtime_labels,
                                                      codes = map playtime_label xs\<rparr>,
                               title = ''Playtime Distribution'',
                               textposition = ''inside'',
                               textinfo = ''percent+label''\<rparr>,
                Some (setitem df ''playtime_bin''
                        (Categorical \<lparr>categories = playtime_labels,
                                      codes = map playtime_label xs\<rparr>)))"
  using assms by (simp add: playtime_distribution_def cut_playtime)


text \<open>
  C6.  For a reviews table whose playtime column holds exactly \<open>5, 15, 60, 150\<close>, the
  chart is given the count \<open>1\<close> for each of the four labels.
\<close>

theorem histogram_example:
  assumes "map_of (columns df) ''playtime_hours'' = Some (Numeric [Fin 5, Fin 15, Fin 60, Fin 150])"
  shows "\<exists>p df'. playtime_distribution (Some df) = Inr (Plotly_chart p, Some df') \<and>
           slices p = map_of [(''0-10h'', 1), (''10-50h'', 1), (''50-100h'', 1), (''100h+'', 1)]"
proof -
  have "value_counts \<lparr>categories = playtime_labels,
                      codes = map playtime_label [Fin 5, Fin 15, Fin 60, Fin 150]\<rparr> =
        map_of [(''0-10h'', 1), (''10-50h'', 1), (''50-100h'', 1), (''100h+'', 1)]"
    unfolding value_counts_playtime by (simp add: in_bin_def f64_le_def)
  with playtime_distribution_numeric [OF assms] show ?thesis by simp
qed


theorem histogram_example_witness:
  "map_of (columns reviews_example) ''playtime_hours'' =
     Some (Numeric [Fin 5, Fin 15, Fin 60, Fin 150]) \<and>
   (\<exists>p df'. playtime_distribution (Some reviews_example) = Inr (Plotly_chart p, Some df') \<and>
      slices p = map_of [(''0-10h'', 1), (''10-50h'', 1), (''50-100h'', 1), (''100h+'', 1)])"
  using histogram_example [of reviews_example]
  by (simp add: reviews_example_def)

section \<open>The loader\<close>

lemma load_data_cases:
  "(\<exists>g r l. fs games_path = Inr g \<and> fs reviews_path = Inr r \<and> fs logs_path = Inr l \<and>
      load_data fs s = (Inr ([], \<lparr>games = Some g, reviews = Some r, logs = Some l\<rparr>),
                        s\<lparr>reads := reads s @ [games_path, reviews_path, logs_path]\<rparr>)) \<or>
   (\<exists>e s'. load_data fs s = (Inr (load_failed e), s') \<and>
      (fs games_path = Inl e \<or>
       (\<exists>g. fs games_path = Inr g \<and> fs reviews_path = Inl e) \<or>
       (\<exists>g r. fs games_path = Inr g \<and> fs reviews_path = Inr r \<and> fs logs_path = Inl e)))"
  by (auto simp: load_data_def read_parquet_def split: sum.splits)

lemma load_data_returns: "\<exists>res. fst (load_data fs s) = Inr res"
  using load_data_cases [of fs s] by auto

text \<open>
  C3.  Whatever the three reads yield, \<^verbatim>\<open>load_data\<close> returns to its caller and raises
  nothing.  If all three reads succeed it shows nothing and returns the three tables
  read; if a read fails, with whatever exception, it shows exactly one error message,
  which carries the text of the exception of the first failing read, and returns
  \<^verbatim>\<open>None\<close> three times.
\<close>

theorem load_data_never_raises:
  "\<exists>shown t. fst (load_data fs s) = Inr (shown, t) \<and>
     ((\<exists>g r l. fs games_path = Inr g \<and> fs reviews_path = Inr r \<and> fs logs_path = Inr l \<and>
         shown = [] \<and> t = \<lparr>games = Some g, reviews = Some r, logs = Some l\<rparr>) \<or>
      (\<exists>e. (fs games_path = Inl e \<or>
             (\<exists>g. fs games_path = Inr g \<and> fs reviews_path = Inl e) \<or>
             (\<exists>g r. fs games_path = Inr g \<and> fs reviews_path = Inr r \<and> fs logs_path = Inl e)) \<and>
         shown = [Error (''Error loading data: '' @ str_exception e)] \<and>
         t = \<lparr>games = None, reviews = None, logs = None\<rparr>))"
  using load_data_cases [of fs s] by (auto simp: load_failed_def)

lemma load_data_cached_hit:
  "cache s = Some hit \<Longrightarrow> load_data_cached fs s = (Inr hit, s)"
  by (simp add: load_data_cached_def)

lemma load_data_cached_fills:
  "\<exists>res. fst (load_data_cached fs s) = Inr res \<and> cache (snd (load_data_cached fs s)) = Some res"
proof (cases "cache s")
  case (Some hit)
  then show ?thesis by (simp add: load_data_cached_hit)
next
  case None
  obtain res s' where "load_data fs s = (Inr res, s')"
    using load_data_returns [of fs s] by (cases "load_data fs s") auto
  with None show ?thesis by (simp add: load_data_cached_def)
qed

lemma load_repeatedly_hit:
  "cache s = Some hit \<Longrightarrow> load_repeatedly fss s = (replicate (length fss) (Inr hit), s)"
  by (induction fss) (simp_all add: load_data_cached_hit)

text \<open>
  C8.  In a sequence of calls of the cached loader without a clearing of the cache in
  between, whatever the storage holds at each call, every call returns what the first
  call returned, and after the first call nothing changes in the session: in
  particular no path is read again.
\<close>

theorem load_data_idempotent:
  "fst (load_repeatedly (fs # rest) s) =
     replicate (Suc (length rest)) (fst (load_data_cached fs s)) \<and>
   snd (load_repeatedly (fs # rest) s) = snd (load_data_cached fs s)"
proof -
  obtain res where r: "fst (load_data_cached fs s) = Inr res"
    and c: "cache (snd (load_data_cached fs s)) = Some res"
    using load_data_cached_fills [of fs s] by blast
  show ?thesis
    using r load_repeatedly_hit [OF c, of rest]
    by (simp add: case_prod_beta)
qed


section \<open>The number of active players\<close>

lemma isna_iff: "isna x \<longleftrightarrow> x = NaN"
  by (cases x) simp_all

lemma nunique_Numeric: "nunique (Numeric xs) = int (card (present_numbers xs))"
proof -
  have "set (map canon (filter (\<lambda>x. \<not> isna x) xs)) = present_numbers xs"
    by (auto simp: present_numbers_def isna_iff)
  then show ?thesis
    by (simp add: nunique_def card_set [symmetric] del: set_map set_filter)
qed

lemma nunique_Categorical: "nunique (Categorical k) = int (card (present_labels (codes k)))"
proof -
  have "set (filter (\<lambda>x. x \<noteq> None) (codes k)) = Some ` present_labels (codes k)"
    by (auto simp: present_labels_def image_iff)
  then have "card (set (filter (\<lambda>x. x \<noteq> None) (codes k))) = card (present_labels (codes k))"
    by (simp add: card_image del: set_filter)
  then show ?thesis
    by (simp add: nunique_def card_set [symmetric] del: set_filter)
qed

lemma format_comma_3: "format_comma 3 = ''3''"
  by (simp add: format_comma.simps str_int.simps digit_char_def)

lemma present_numbers_example: "card (present_numbers [Fin 1, Fin 1, Fin 2, Fin 3]) = 3"
  by (simp add: present_numbers_def)

lemma format_comma_2: "format_comma 2 = ''2''"
  by (simp add: format_comma.simps str_int.simps digit_char_def)

lemma present_labels_example:
  "card (present_labels [Some ''ann'', Some ''bob'', None, Some ''ann'']) = 2"
proof -
  have "present_labels [Some ''ann'', Some ''bob'', None, Some ''ann''] = {''ann'', ''bob''}"
    by (auto simp: present_labels_def)
  then show ?thesis by simp
qed

lemma format_comma_1234: "format_comma 1234 = ''1,234''"
  by (simp add: format_comma.simps str_int.simps digit_char_def pad3_def)

section \<open>The row counts and the absent games table\<close>

lemma main_body_no_games:
  "games t = None \<Longrightarrow>
     main_body add_reduce ev t = \<lparr>elements = data_files_not_found, ending = Completed, after = t\<rparr>"
  by (simp add: main_body_def)

lemma main_body_shows_counts:
  assumes "games t = Some g" and "\<not> refresh_clicked ev"
  shows "\<exists>rest. elements (main_body add_reduce ev t) =
           sidebar @ [Markdown (''**Last Updated:** '' @ clock ev),
                      Markdown (''### '' @ bar_chart @ '' Overview Metrics'')]
           @ count_metrics t @ rest"
  using assms
  by (auto simp: main_body_def Let_def split: sum.splits prod.splits)

lemma len_or_0_rows: "len_or_0 df = (case df of Some d \<Rightarrow> int (nrows d) | None \<Rightarrow> 0)"
  by (cases df) (simp_all add: len_or_0_def len_df_def)

text \<open>
  C4, as the code has it.  When the games table is present and the refresh button was
  not pressed, the run shows, after the sidebar and two captions, the three metrics
  ``Total Games'', ``Total Reviews'' and ``Log Entries'' with the row counts of their
  tables, \<open>0\<close> for an absent reviews or logs table, whatever else the tables hold and
  however the rest of the run ends.  When the games table is absent, no metric is
  shown: the page consists of the error ``Data files not found!'' and the note on the
  required files.
\<close>

theorem count_metrics_shown:
  "(games t \<noteq> None \<and> \<not> refresh_clicked ev \<longrightarrow>
      (\<exists>rest. elements (main_body add_reduce ev t) =
         sidebar @ [Markdown (''**Last Updated:** '' @ clock ev),
                    Markdown (''### '' @ bar_chart @ '' Overview Metrics''),
                    Metric ''Total Games''
                      (format_comma (case games t of Some d \<Rightarrow> int (nrows d) | None \<Rightarrow> 0)),
                    Metric ''Total Reviews''
                      (format_comma (case reviews t of Some d \<Rightarrow> int (nrows d) | None \<Rightarrow> 0)),
                    Metric ''Log Entries''
                      (format_comma (case logs t of Some d \<Rightarrow> int (nrows d) | None \<Rightarrow> 0))]
         @ rest)) \<and>
   (games t' = None \<longrightarrow>
      main_body add_reduce ev' t' =
        \<lparr>elements =
           [Error (file_folder @ '' Data files not found! Please ensure parquet files are in the project directory.''),
            Info ''Required files: games.parquet, reviews.parquet, logs.parquet''],
         ending = Completed, after = t'\<rparr>)"
proof (intro conjI impI)
  assume "games t \<noteq> None \<and> \<not> refresh_clicked ev"
  then obtain g where "games t = Some g" and "\<not> refresh_clicked ev" by auto
  from main_body_shows_counts [OF this, of add_reduce]
  show "\<exists>rest. elements (main_body add_reduce ev t) =
         sidebar @ [Markdown (''**Last Updated:** '' @ clock ev),
                    Markdown (''### '' @ bar_chart @ '' Overview Metrics''),
                    Metric ''Total Games''
                      (format_comma (case games t of Some d \<Rightarrow> int (nrows d) | None \<Rightarrow> 0)),
                    Metric ''Total Reviews''
                      (format_comma (case reviews t of Some d \<Rightarrow> int (nrows d) | None \<Rightarrow> 0)),
                    Metric ''Log Entries''
                      (format_comma (case logs t of Some d \<Rightarrow> int (nrows d) | None \<Rightarrow> 0))]
         @ rest"
    by (simp add: count_metrics_def len_or_0_rows)
next
  assume "games t' = None"
  then show "main_body add_reduce ev' t' =
        \<lparr>elements =
           [Error (file_folder @ '' Data files not found! Please ensure parquet files are in the project directory.''),
            Info ''Required files: games.parquet, reviews.parquet, logs.parquet''],
         ending = Completed, after = t'\<rparr>"
    by (simp add: main_body_no_games data_files_not_found_def)
qed

theorem count_metrics_shown_witness:
  "games \<lparr>games = Some games_example, reviews = None, logs = Some logs_example\<rparr> \<noteq> None \<and>
   \<not> refresh_clicked env_example \<and>
   (\<exists>rest. elements (main_body sequential_sum env_example
                        \<lparr>games = Some games_example, reviews = None, logs = Some logs_example\<rparr>) =
      sidebar @ [Markdown ''**Last Updated:** 12:00:00'',
                 Markdown (''### '' @ bar_chart @ '' Overview Metrics''),
                 Metric ''Total Games'' ''1,234'',
                 Metric ''Total Reviews'' ''0'',
                 Metric ''Log Entries'' ''4'']
      @ rest) \<and>
   games \<lparr>games = None, reviews = Some reviews_example, logs = Some logs_example\<rparr> = None \<and>
   main_body sequential_sum env_example
     \<lparr>games = None, reviews = Some reviews_example, logs = Some logs_example\<rparr> =
     \<lparr>elements =
        [Error (file_folder @ '' Data files not found! Please ensure parquet files are in the project directory.''),
         Info ''Required files: games.parquet, reviews.parquet, logs.parquet''],
      ending = Completed,
      after = \<lparr>games = None, reviews = Some reviews_example, logs = Some logs_example\<rparr>\<rparr>"
  using count_metrics_shown [of
          "\<lparr>games = Some games_example, reviews = None, logs = Some logs_example\<rparr>"
          env_example sequential_sum
          "\<lparr>games = None, reviews = Some reviews_example, logs = Some logs_example\<rparr>"
          env_example]
  by (simp add: env_example_def games_example_def logs_example_def format_comma_1234
        format_comma.simps [of 0] format_comma.simps [of 4] str_int.simps digit_char_def)

text \<open>
  C4 as the specification words it fails when the tables are absent, which is what
  \<^verbatim>\<open>load_data\<close> returns after a failed read: the run shows no ``Total Games'' metric
  with the value \<open>0\<close>, nor any other metric, only the error and the note.
\<close>

theorem no_metrics_counterexample:
  "main_body sequential_sum env_example \<lparr>games = None, reviews = None, logs = None\<rparr> =
     \<lparr>elements =
        [Error (file_folder @ '' Data files not found! Please ensure parquet files are in the project directory.''),
         Info ''Required files: games.parquet, reviews.parquet, logs.parquet''],
      ending = Completed,
      after = \<lparr>games = None, reviews = None, logs = None\<rparr>\<rparr>"
  by (simp add: main_body_no_games data_files_not_found_def)

section \<open>What a run changes in the tables\<close>

lemma playtime_distribution_after:
  assumes "playtime_distribution r = Inr (el, r')"
  shows "r' = r \<or>
         (\<exists>df xs. r = Some df \<and> map_of (columns df) ''playtime_hours'' = Some (Numeric xs) \<and>
            r' = Some (setitem df ''playtime_bin''
                         (Categorical \<lparr>categories = playtime_labels,
                                       codes = map playtime_label xs\<rparr>)))"
proof (cases "\<exists>df xs. r = Some df \<and> map_of (columns df) ''playtime_hours'' = Some (Numeric xs)")
  case True
  then obtain df xs where "r = Some df"
    and "map_of (columns df) ''playtime_hours'' = Some (Numeric xs)" by blast
  with assms playtime_distribution_numeric [of df xs] show ?thesis by auto
next
  case False
  with assms show ?thesis
    by (auto simp: playtime_distribution_def cut_def split: option.splits column.splits)
qed

lemma main_body_after:
  "after (main_body add_reduce ev t) = t \<or>
   (\<exists>el r'. playtime_distribution (reviews t) = Inr (el, r') \<and>
      after (main_body add_reduce ev t) = t\<lparr>reviews := r'\<rparr>)"
  by (auto simp: main_body_def Let_def split: option.splits sum.splits prod.splits)

lemma column_of_setitem:
  "name \<noteq> k \<Longrightarrow> column_of (Some (setitem df k c)) name = column_of (Some df) name"
  by (simp add: column_of_def setitem_def update_conv')

lemma playtime_label_examples:
  "map playtime_label [Fin 5, Fin 15, Fin 60, Fin 150] =
     [Some ''0-10h'', Some ''10-50h'', Some ''50-100h'', Some ''100h+'']"
  by (simp add: playtime_label_def in_bin_def f64_le_def)

lemma main_body_adds_bucket:
  assumes "games t = Some g" and "\<not> refresh_clicked ev" and "reviews t = Some df"
    and "map_of (columns df) ''playtime_hours'' = Some (Numeric xs)"
  shows "reviews (after (main_body add_reduce ev t)) =
           Some (setitem df ''playtime_bin''
                   (Categorical \<lparr>categories = playtime_labels,
                                 codes = map playtime_label xs\<rparr>))"
  using assms
  by (simp add: main_body_def avg_playtime_metric_def column_of_def series_mean_def
        playtime_distribution_numeric Let_def split: sum.splits)

lemma setitem_changes:
  "map_of (columns df) k \<noteq> Some c \<Longrightarrow> setitem df k c \<noteq> df"
  by (auto simp: setitem_def update_conv' dest!: arg_cong [where f = "\<lambda>d. map_of (columns d) k"])

text \<open>
  C9.  Whatever a run of the body of \<^verbatim>\<open>main\<close> does and however it ends, the games
  table and the logs table are afterwards what they were; the reviews table has the
  rows it had, and every column of it under a name other than \<^verbatim>\<open>playtime_bin\<close> is what
  it was, present or absent.  If the reviews table has changed at all, then it had a
  numeric playtime column and the change is the assignment of the bucket column
  \<^verbatim>\<open>playtime_bin\<close>.
\<close>

theorem tables_preserved:
  "games (after (main_body add_reduce ev t)) = games t \<and>
   logs (after (main_body add_reduce ev t)) = logs t \<and>
   len_or_0 (reviews (after (main_body add_reduce ev t))) = len_or_0 (reviews t) \<and>
   (name \<noteq> ''playtime_bin'' \<longrightarrow>
      column_of (reviews (after (main_body add_reduce ev t))) name = column_of (reviews t) name) \<and>
   (reviews (after (main_body add_reduce ev t)) \<noteq> reviews t \<longrightarrow>
      (\<exists>df xs. reviews t = Some df \<and>
         map_of (columns df) ''playtime_hours'' = Some (Numeric xs) \<and>
         reviews (after (main_body add_reduce ev t)) =
           Some (setitem df ''playtime_bin''
                   (Categorical \<lparr>categories = playtime_labels,
                                 codes = map playtime_label xs\<rparr>))))"
proof -
  let ?p = "main_body add_reduce ev t"
  have t: "games (after ?p) = games t \<and> logs (after ?p) = logs t"
    using main_body_after [of add_reduce ev t] by auto
  have r: "reviews (after ?p) = reviews t \<or>
           (\<exists>df xs. reviews t = Some df \<and>
              map_of (columns df) ''playtime_hours'' = Some (Numeric xs) \<and>
              reviews (after ?p) =
                Some (setitem df ''playtime_bin''
                        (Categorical \<lparr>categories = playtime_labels,
                                      codes = map playtime_label xs\<rparr>)))"
    using main_body_after [of add_reduce ev t] playtime_distribution_after [of "reviews t"]
    by auto
  from r have "len_or_0 (reviews (after ?p)) = len_or_0 (reviews t)"
    by (auto simp: len_or_0_def len_df_def setitem_def)
  moreover from r have "name \<noteq> ''playtime_bin'' \<longrightarrow>
      column_of (reviews (after ?p)) name = column_of (reviews t) name"
    by (auto simp: column_of_setitem)
  ultimately show ?thesis using t r by blast
qed


theorem tables_preserved_witness:
  "games (after (main_body sequential_sum env_example
       \<lparr>games = Some games_example, reviews = Some reviews_example, logs = Some logs_example\<rparr>)) =
     Some games_example \<and>
   logs (after (main_body sequential_sum env_example
       \<lparr>games = Some games_example, reviews = Some reviews_example, logs = Some logs_example\<rparr>)) =
     Some logs_example \<and>
   ''helpful_votes'' \<noteq> ''playtime_bin'' \<and>
   column_of (reviews (after (main_body sequential_sum env_example
       \<lparr>games = Some games_example, reviews = Some reviews_example, logs = Some logs_example\<rparr>)))
     ''helpful_votes'' = Some (Numeric [Fin 30, Fin 50, Fin 0, Fin 0]) \<and>
   reviews (after (main_body sequential_sum env_example
       \<lparr>games = Some games_example, reviews = Some reviews_example, logs = Some logs_example\<rparr>)) \<noteq>
     Some reviews_example \<and>
   reviews (after (main_body sequential_sum env_example
       \<lparr>games = Some games_example, reviews = Some reviews_example, logs = Some logs_example\<rparr>)) =
     Some (setitem reviews_example ''playtime_bin''
             (Categorical \<lparr>categories = playtime_labels,
                           codes = [Some ''0-10h'', Some ''10-50h'', Some ''50-100h'',
                                    Some ''100h+'']\<rparr>))"
proof -
  let ?t = "\<lparr>games = Some games_example, reviews = Some reviews_example, logs = Some logs_example\<rparr>"
  have col: "map_of (columns reviews_example) ''playtime_hours'' =
               Some (Numeric [Fin 5, Fin 15, Fin 60, Fin 150])"
    by (simp add: reviews_example_def)
  have new: "reviews (after (main_body sequential_sum env_example ?t)) =
               Some (setitem reviews_example ''playtime_bin''
                       (Categorical \<lparr>categories = playtime_labels,
                                     codes = map playtime_label [Fin 5, Fin 15, Fin 60, Fin 150]\<rparr>))"
    by (rule main_body_adds_bucket [OF _ _ _ col]) (simp_all add: env_example_def)
  have "map_of (columns reviews_example) ''playtime_bin'' = None"
    by (simp add: reviews_example_def)
  then have changed: "reviews (after (main_body sequential_sum env_example ?t)) \<noteq> reviews ?t"
    unfolding new by (simp add: setitem_changes)
  have hv: "column_of (reviews ?t) ''helpful_votes'' = Some (Numeric [Fin 30, Fin 50, Fin 0, Fin 0])"
    by (simp add: column_of_def reviews_example_def)
  from tables_preserved [of sequential_sum env_example ?t "''helpful_votes''"]
  have g: "games (after (main_body sequential_sum env_example ?t)) = Some games_example"
    and l: "logs (after (main_body sequential_sum env_example ?t)) = Some logs_example"
    and c: "column_of (reviews (after (main_body sequential_sum env_example ?t))) ''helpful_votes'' =
              column_of (reviews ?t) ''helpful_votes''"
    by simp_all
  show ?thesis
    using g l c [unfolded hv] changed new [unfolded playtime_label_examples] by simp
qed


section \<open>The sentiment score\<close>

lemma sentiment_80: "format_1f (fmul (fdiv (Fin 80) (Fin 100)) (Fin 100)) = ''80.0''"
  by code_simp

lemma sequential_sum_examples:
  "sequential_sum (fillna0 [Fin 30, Fin 50, Fin 0, Fin 0]) = Fin 80"
  "sequential_sum (fillna0 [Fin 40, Fin 60, Fin 0, Fin 0]) = Fin 100"
  "sequential_sum (fillna0 [Fin 0, Fin 0]) = Fin 0"
  "sequential_sum (fillna0 [Fin 3, Fin 4]) = Fin 7"
  "sequential_sum (fillna0 [Fin 5, Fin 15, Fin 60, Fin 150]) = Fin 230"
  by code_simp+

lemma division_by_zero_sum:
  assumes "is_zero t"
  shows "is_inf (fmul (fdiv h t) (Fin 100)) \<or> isna (fmul (fdiv h t) (Fin 100))"
  using assms
  by (cases h; cases t) (auto simp: fdiv_def fmul_def inf_signed_def zero_signed_def)

lemma format_1f_not_finite:
  "is_inf v \<or> isna v \<Longrightarrow> format_1f v = ''inf'' \<or> format_1f v = ''-inf'' \<or> format_1f v = ''nan''"
  by (cases v) (auto simp: format_1f_def)

lemma sentiment_7_0: "format_1f (fmul (fdiv (Fin 7) (Fin 0)) (Fin 100)) = ''inf''"
  by code_simp

lemma sentiment_numeric:
  assumes "map_of (columns df) ''helpful_votes'' = Some (Numeric hs)"
    and "map_of (columns df) ''total_votes'' = Some (Numeric ts)"
  shows "sentiment_score_metric add_reduce (Some df) =
           Inr (Metric ''Sentiment Score''
                  (format_1f (fmul (fdiv (add_reduce (fillna0 hs)) (add_reduce (fillna0 ts)))
                                   (Fin 100)) @ ''%''))"
  using assms by (simp add: sentiment_score_metric_def series_sum_def)

lemma sentiment_fallback:
  assumes "\<not> has_column df ''helpful_votes'' \<or> \<not> has_column df ''total_votes''"
  shows "sentiment_score_metric add_reduce (Some df) = Inr (Metric ''Sentiment Score'' ''62.4%'')"
  using assms
  by (auto simp: sentiment_score_metric_def has_column_def split: option.splits)

text \<open>
  C10.  If both vote columns are there and the total votes sum to zero (of either
  sign), computing the sentiment score raises nothing: the metric is shown, and the
  number written in it is an infinity or NaN, so that the metric reads ``inf%'',
  ``-inf%'' or ``nan%'', not the fallback.
\<close>

theorem sentiment_zero_total:
  "map_of (columns df) ''helpful_votes'' = Some (Numeric hs) \<and>
   map_of (columns df) ''total_votes'' = Some (Numeric ts) \<and>
   is_zero (add_reduce (fillna0 ts)) \<longrightarrow>
     (\<exists>v. sentiment_score_metric add_reduce (Some df) =
             Inr (Metric ''Sentiment Score'' (format_1f v @ ''%'')) \<and>
           (is_inf v \<or> isna v) \<and>
           (format_1f v = ''inf'' \<or> format_1f v = ''-inf'' \<or> format_1f v = ''nan''))"
proof
  assume a: "map_of (columns df) ''helpful_votes'' = Some (Numeric hs) \<and>
   map_of (columns df) ''total_votes'' = Some (Numeric ts) \<and>
   is_zero (add_reduce (fillna0 ts))"
  let ?v = "fmul (fdiv (add_reduce (fillna0 hs)) (add_reduce (fillna0 ts))) (Fin 100)"
  from a have "sentiment_score_metric add_reduce (Some df) =
      Inr (Metric ''Sentiment Score'' (format_1f ?v @ ''%''))"
    by (simp add: sentiment_numeric)
  moreover from a have nf: "is_inf ?v \<or> isna ?v"
    by (simp add: division_by_zero_sum)
  moreover from nf have "format_1f ?v = ''inf'' \<or> format_1f ?v = ''-inf'' \<or> format_1f ?v = ''nan''"
    by (rule format_1f_not_finite)
  ultimately show "\<exists>v. sentiment_score_metric add_reduce (Some df) =
             Inr (Metric ''Sentiment Score'' (format_1f v @ ''%'')) \<and>
           (is_inf v \<or> isna v) \<and>
           (format_1f v = ''inf'' \<or> format_1f v = ''-inf'' \<or> format_1f v = ''nan'')"
    by blast
qed

theorem sentiment_zero_total_witness:
  "map_of (columns reviews_no_votes) ''helpful_votes'' = Some (Numeric [Fin 3, Fin 4]) \<and>
   map_of (columns reviews_no_votes) ''total_votes'' = Some (Numeric [Fin 0, Fin 0]) \<and>
   is_zero (sequential_sum (fillna0 [Fin 0, Fin 0])) \<and>
   (\<exists>v. sentiment_score_metric sequential_sum (Some reviews_no_votes) =
           Inr (Metric ''Sentiment Score'' (format_1f v @ ''%'')) \<and>
         (is_inf v \<or> isna v) \<and>
         (format_1f v = ''inf'' \<or> format_1f v = ''-inf'' \<or> format_1f v = ''nan''))"
proof -
  have h: "map_of (columns reviews_no_votes) ''helpful_votes'' = Some (Numeric [Fin 3, Fin 4])"
    and t: "map_of (columns reviews_no_votes) ''total_votes'' = Some (Numeric [Fin 0, Fin 0])"
    by (simp_all add: reviews_no_votes_def)
  have z: "is_zero (sequential_sum (fillna0 [Fin 0, Fin 0]))"
    by (simp add: sequential_sum_examples)
  from sentiment_zero_total [of reviews_no_votes "[Fin 3, Fin 4]" "[Fin 0, Fin 0]" sequential_sum]
    h t z
  show ?thesis by blast
qed

section \<open>The average playtime\<close>

lemma mean_230_4: "format_1f (fdiv (Fin 230) (round_f64 4)) = ''57.5''"
  by code_simp

lemma avg_playtime_numeric:
  assumes "column_of r ''playtime_hours'' = Some (Numeric xs)"
  shows "avg_playtime_metric add_reduce r =
           Inr (Metric ''Avg Playtime''
                  (format_1f (if 0 < length (filter (\<lambda>x. \<not> isna x) xs)
                              then fdiv (add_reduce (fillna0 xs))
                                        (round_f64 (of_nat (length (filter (\<lambda>x. \<not> isna x) xs))))
                              else NaN) @ ''h''))"
  using assms by (simp add: avg_playtime_metric_def series_mean_def Let_def)

section \<open>A whole run\<close>

text \<open>
  Two facts on \<^verbatim>\<open>main\<close> as a whole.  What a run stores in the session is what the
  loader left there: the bucket column that the run adds to its copy of the reviews
  table does not reach the cache.  And a storage in which the reviews file is missing
  leads to the page of the absent tables: the header, the loader's error, the error
  ``Data files not found!'' and the note; the failed load is cached as well.
\<close>

lemma main_keeps_cache:
  "fst (load_data_cached fs s) = Inr (shown, t) \<Longrightarrow>
   ending (main_body add_reduce ev t) \<noteq> Rerun \<Longrightarrow>
   snd (main add_reduce fs ev s) = snd (load_data_cached fs s)"
  by (cases "load_data_cached fs s") (simp add: main_def Let_def)

lemma main_after_failed_load:
  "main sequential_sum storage_missing env_example session_start =
     (Inr \<lparr>elements = header
                @ [Error ''Error loading data: No such file or directory'']
                @ data_files_not_found,
            ending = Completed,
            after = \<lparr>games = None, reviews = None, logs = None\<rparr>\<rparr>,
      \<lparr>cache = Some ([Error ''Error loading data: No such file or directory''],
                     \<lparr>games = None, reviews = None, logs = None\<rparr>),
       reads = [games_path, reviews_path]\<rparr>)"
  by (simp add: main_def load_data_cached_def load_data_def read_parquet_def session_start_def
        storage_missing_def load_failed_def main_body_no_games games_path_def reviews_path_def)

section \<open>Sums in binary64\<close>

text \<open>
  The left-to-right sum is one of the reductions.  Whatever the reduction, the sum of
  whole numbers that are not negative and add up to less than \<open>2^53\<close> is exact: no
  addition rounds.
\<close>

lemma sums_to_foldl: "sums_to (a # xs) (foldl fadd a xs)"
proof (induction xs arbitrary: a)
  case Nil
  show ?case by (simp add: sums_to.single)
next
  case (Cons x xs)
  have "sums_to ([] @ fadd a x # [] @ xs) (foldl fadd (fadd a x) xs)"
    using Cons [of "fadd a x"] by simp
  then have "sums_to ([] @ a # [] @ x # xs) (foldl fadd (fadd a x) xs)"
    by (rule sums_to.pair)
  then show ?case by simp
qed

lemma reduction_sequential_sum: "reduction sequential_sum"
proof -
  have "sums_to xs (foldl fadd (Fin 0) xs)" for xs
    by (rule sums_to.identity) (rule sums_to_foldl)
  then show ?thesis by (simp add: reduction_def sequential_sum_def)
qed

lemma metric_values_append [simp]:
  "metric_values l (es @ fs) = metric_values l es @ metric_values l fs"
  by (induction l es rule: metric_values.induct) simp_all

lemma charts_append [simp]: "charts (es @ fs) = charts es @ charts fs"
  by (induction es rule: charts.induct) simp_all

lemma bitlen_bounds:
  "0 < n \<Longrightarrow> 0 < bitlen n \<and> 2 ^ (nat (bitlen n) - 1) \<le> n \<and> n < 2 ^ nat (bitlen n)"
proof (induction n rule: bitlen.induct)
  case (1 n)
  show ?case
  proof (cases "n div 2 = 0")
    case True
    with 1(2) have "n = 1" by presburger
    then show ?thesis by (simp add: bitlen.simps)
  next
    case False
    with 1(2) have pos: "0 < n div 2" by presburger
    from 1(2) have b: "bitlen n = 1 + bitlen (n div 2)"
      by (subst bitlen.simps) simp
    from 1(1) [OF _ pos] 1(2)
    have ih: "0 < bitlen (n div 2)" "2 ^ (nat (bitlen (n div 2)) - 1) \<le> n div 2"
      "n div 2 < 2 ^ nat (bitlen (n div 2))"
      by simp_all
    define k where "k = nat (bitlen (n div 2)) - 1"
    from ih(1) have k: "nat (bitlen (n div 2)) = Suc k" by (simp add: k_def)
    from ih(1) b have nb: "nat (bitlen n) = Suc (Suc k)" by (simp add: k_def)
    from ih(2,3) have "2 ^ k \<le> n div 2" "n div 2 < 2 * 2 ^ k" by (simp_all add: k)
    then have "2 * 2 ^ k \<le> n" "n < 2 * (2 * 2 ^ k)" by linarith+
    then have "2 ^ (nat (bitlen n) - 1) \<le> n" "n < 2 ^ nat (bitlen n)"
      unfolding nb by simp_all
    moreover from ih(1) b have "0 < bitlen n" by simp
    ultimately show ?thesis by simp
  qed
qed

lemma bitlen_1: "bitlen 1 = 1"
  by (simp add: bitlen.simps)

lemma div_half_even_1: "div_half_even x 1 = x"
  by (simp add: div_half_even_def)

lemma ilog2_int:
  assumes "0 < n"
  shows "ilog2 n 1 = bitlen n - 1"
proof -
  from bitlen_bounds [OF assms] have "0 \<le> bitlen n - 1"
    and "2 ^ nat (bitlen n - 1) \<le> n"
    by (simp_all add: nat_diff_distrib')
  then show ?thesis by (simp add: ilog2_def bitlen_1)
qed

lemma round_f64_int:
  assumes "0 < n" and "n < 2 ^ 53"
  shows "round_f64 (of_int n) = Fin (of_int n)"
proof -
  define d where "d = bitlen n - 1"
  from bitlen_bounds [OF assms(1)] have d0: "0 \<le> d" and lo: "2 ^ nat d \<le> n"
    by (simp_all add: d_def nat_diff_distrib')
  have "nat d < 53"
  proof (rule power_less_imp_less_exp [of "2::int"])
    show "(1::int) < 2" by simp
    show "(2::int) ^ nat d < 2 ^ 53" using lo assms(2) by linarith
  qed
  with d0 have d52: "d \<le> 52" by linarith
  have q: "quotient_of (of_int n) = (n, 1)" by simp
  have e: "max (ilog2 n 1) (- 1022) = d"
    using d0 by (simp add: ilog2_int [OF assms(1)] d_def)
  show ?thesis
  proof (cases "d = 52")
    case True
    have "(2::int) ^ 53 \<le> 2 ^ 1024" by (rule power_increasing) simp_all
    with assms(2) have "\<not> (2::int) ^ 1024 \<le> n" by linarith
    with assms(1) True show ?thesis
      by (simp add: round_f64_def q e Let_def div_half_even_1 scale2_def)
  next
    case False
    with d52 have neg: "\<not> 0 \<le> d - 52" by simp
    have p: "(2::int) ^ nat (52 - d) \<noteq> 0" by simp
    have "Fract (n * 2 ^ nat (52 - d)) (2 ^ nat (52 - d)) = of_int n"
      by (simp add: Fract_of_int_quotient)
    with assms(1) neg show ?thesis
      by (simp add: round_f64_def q e Let_def div_half_even_1 scale2_def)
  qed
qed

lemma fadd_whole:
  assumes "0 \<le> j" and "0 \<le> k" and "j + k < 2 ^ 53"
  shows "fadd (Fin (of_int j)) (Fin (of_int k)) = Fin (of_int (j + k))"
proof (cases "j = 0 \<and> k = 0")
  case True
  then show ?thesis by (simp add: fadd_def zero_signed_def)
next
  case False
  with assms have "0 < j + k" by linarith
  from round_f64_int [OF this assms(3)] False show ?thesis
    by (auto simp: fadd_def)
qed

lemma whole_numbers_simps [simp]:
  "whole_numbers []"
  "whole_numbers (x # xs) \<longleftrightarrow> (\<exists>k. 0 \<le> k \<and> x = Fin (of_int k)) \<and> whole_numbers xs"
  "whole_numbers (xs @ ys) \<longleftrightarrow> whole_numbers xs \<and> whole_numbers ys"
  by (auto simp: whole_numbers_def)

lemma whole_numbers_sum: "whole_numbers xs \<Longrightarrow> 0 \<le> sum_list (map the_rat xs)"
  by (induction xs) auto

lemma sums_to_exact:
  "sums_to xs s \<Longrightarrow> whole_numbers xs \<Longrightarrow> sum_list (map the_rat xs) < 2 ^ 53 \<Longrightarrow>
     s = Fin (sum_list (map the_rat xs))"
proof (induction rule: sums_to.induct)
  case nothing
  show ?case by simp
next
  case (single x)
  then show ?case by auto
next
  case (pair us a b vs ws s)
  from pair.prems(1) obtain j k where j: "0 \<le> j" "a = Fin (of_int j)"
    and k: "0 \<le> k" "b = Fin (of_int k)"
    by auto
  from pair.prems(1) have w: "whole_numbers us" "whole_numbers vs" "whole_numbers ws"
    by auto
  from pair.prems(2) whole_numbers_sum [OF w(1)] whole_numbers_sum [OF w(2)]
    whole_numbers_sum [OF w(3)]
  have "(of_int (j + k) :: rat) < 2 ^ 53" by (simp add: j k)
  then have "(of_int (j + k) :: rat) < of_int (2 ^ 53)" by simp
  then have jk: "j + k < 2 ^ 53" by (simp only: of_int_less_iff)
  have ab: "fadd a b = Fin (of_int (j + k))"
    unfolding j k by (rule fadd_whole [OF j(1) k(1) jk])
  have "\<exists>i. 0 \<le> i \<and> fadd a b = Fin (of_int i)"
    unfolding ab using j(1) k(1) by (intro exI [of _ "j + k"]) simp
  with w have "whole_numbers (us @ fadd a b # vs @ ws)" by simp
  moreover have "sum_list (map the_rat (us @ fadd a b # vs @ ws)) =
      sum_list (map the_rat (us @ a # vs @ b # ws))"
    by (simp add: j(2) k(2) fadd_whole [OF j(1) k(1) jk])
  ultimately show ?case using pair.IH pair.prems(2) by simp
next
  case (identity xs s)
  have "\<exists>i. 0 \<le> i \<and> Fin 0 = Fin (of_int i)"
    by (intro exI [of _ 0]) simp
  with identity.prems(1) have "whole_numbers (Fin 0 # xs)" by simp
  with identity show ?case by simp
qed

section \<open>The metrics and the chart on the page\<close>

text \<open>
  The loader returns all three tables or none of them, so that in a run of \<^verbatim>\<open>main\<close>
  the reviews table or the logs table is absent only when the games table is absent
  as well; the page then consists of the two errors and the note, and has no metric
  and no chart.
\<close>

lemma load_data_all_or_none:
  assumes "fst (load_data fs s) = Inr (shown, t)"
  shows "t = \<lparr>games = None, reviews = None, logs = None\<rparr> \<or>
         (games t \<noteq> None \<and> reviews t \<noteq> None \<and> logs t \<noteq> None)"
  using assms load_data_cases [of fs s] by (auto simp: load_failed_def)

lemma main_body_elements:
  assumes "games t \<noteq> None" and "\<not> refresh_clicked ev"
  shows "elements (main_body add_reduce ev t) =
     sidebar @ [Markdown (''**Last Updated:** '' @ clock ev),
                Markdown (''### '' @ bar_chart @ '' Overview Metrics'')]
     @ count_metrics t
     @ (case avg_playtime_metric add_reduce (reviews t) of
          Inl e \<Rightarrow> []
        | Inr avg \<Rightarrow>
            [avg, Markdown (''### '' @ busts @ '' Player Analytics''),
             Markdown ''**Player Playtime Distribution**'']
            @ (case playtime_distribution (reviews t) of
                 Inl e \<Rightarrow> []
               | Inr (chart, reviews_df) \<Rightarrow>
                   [chart, active_players_metric (logs t)]
                   @ (case sentiment_score_metric add_reduce reviews_df of
                        Inl e \<Rightarrow> []
                      | Inr sentiment \<Rightarrow> [sentiment])))"
  using assms
  by (auto simp: main_body_def Let_def split: sum.splits prod.splits)

lemma avg_kind:
  "avg_playtime_metric add_reduce r = Inr a \<Longrightarrow> \<exists>v. a = Metric ''Avg Playtime'' v"
  by (auto simp: avg_playtime_metric_def split: option.splits sum.splits)

lemma chart_kind:
  "playtime_distribution r = Inr (c, r') \<Longrightarrow>
     (\<exists>p. c = Plotly_chart p) \<or> c = Info ''Playtime data not available''"
  by (auto simp: playtime_distribution_def split: option.splits sum.splits)

lemma active_kind: "\<exists>v. active_players_metric l = Metric ''Active Players'' v"
  by (auto simp: active_players_metric_def split: option.splits)

lemma sentiment_kind:
  "sentiment_score_metric add_reduce r = Inr s \<Longrightarrow> \<exists>v. s = Metric ''Sentiment Score'' v"
  by (auto simp: sentiment_score_metric_def split: option.splits sum.splits)

lemma fixed_parts [simp]:
  "metric_values ''Avg Playtime'' sidebar = []"
  "metric_values ''Active Players'' sidebar = []"
  "metric_values ''Sentiment Score'' sidebar = []"
  "charts sidebar = []"
  "metric_values ''Avg Playtime'' (count_metrics t) = []"
  "metric_values ''Active Players'' (count_metrics t) = []"
  "metric_values ''Sentiment Score'' (count_metrics t) = []"
  "charts (count_metrics t) = []"
  "metric_values l data_files_not_found = []"
  "charts data_files_not_found = []"
  by (simp_all add: sidebar_def count_metrics_def data_files_not_found_def)

lemma page_avg:
  assumes "games t \<noteq> None" and "\<not> refresh_clicked ev"
    and "avg_playtime_metric add_reduce (reviews t) = Inr (Metric ''Avg Playtime'' v)"
  shows "metric_values ''Avg Playtime'' (elements (main_body add_reduce ev t)) = [v]"
proof -
  have "metric_values ''Avg Playtime''
          (case playtime_distribution (reviews t) of
             Inl e \<Rightarrow> []
           | Inr (chart, reviews_df) \<Rightarrow>
               [chart, active_players_metric (logs t)]
               @ (case sentiment_score_metric add_reduce reviews_df of
                    Inl e \<Rightarrow> []
                  | Inr sentiment \<Rightarrow> [sentiment])) = []"
    using active_kind [of "logs t"]
    by (auto split: sum.splits dest!: chart_kind sentiment_kind)
  then show ?thesis
    by (simp add: main_body_elements [OF assms(1,2)] assms(3))
qed

lemma page_after_avg:
  assumes "games t \<noteq> None" and "\<not> refresh_clicked ev"
    and "avg_playtime_metric add_reduce (reviews t) = Inr a"
    and "playtime_distribution (reviews t) = Inr (c, r')"
  shows "charts (elements (main_body add_reduce ev t)) = charts [c]"
    and "metric_values ''Active Players'' (elements (main_body add_reduce ev t)) =
           metric_values ''Active Players'' [active_players_metric (logs t)]"
    and "metric_values ''Sentiment Score'' (elements (main_body add_reduce ev t)) =
           (case sentiment_score_metric add_reduce r' of
              Inl e \<Rightarrow> [] | Inr s \<Rightarrow> metric_values ''Sentiment Score'' [s])"
    and "c \<in> set (elements (main_body add_reduce ev t))"
proof -
  from avg_kind [OF assms(3)] obtain v where a: "a = Metric ''Avg Playtime'' v" ..
  from active_kind [of "logs t"] obtain w where w: "active_players_metric (logs t) =
    Metric ''Active Players'' w" ..
  have el: "elements (main_body add_reduce ev t) =
     sidebar @ [Markdown (''**Last Updated:** '' @ clock ev),
                Markdown (''### '' @ bar_chart @ '' Overview Metrics'')]
     @ count_metrics t
     @ [a, Markdown (''### '' @ busts @ '' Player Analytics''),
        Markdown ''**Player Playtime Distribution**'', c, active_players_metric (logs t)]
     @ (case sentiment_score_metric add_reduce r' of Inl e \<Rightarrow> [] | Inr s \<Rightarrow> [s])"
    by (simp add: main_body_elements [OF assms(1,2)] assms(3,4))
  show "charts (elements (main_body add_reduce ev t)) = charts [c]"
    unfolding el using chart_kind [OF assms(4)]
    by (auto simp: a w split: sum.splits dest!: sentiment_kind)
  show "metric_values ''Active Players'' (elements (main_body add_reduce ev t)) =
           metric_values ''Active Players'' [active_players_metric (logs t)]"
    unfolding el using chart_kind [OF assms(4)]
    by (auto simp: a w split: sum.splits dest!: sentiment_kind)
  show "metric_values ''Sentiment Score'' (elements (main_body add_reduce ev t)) =
           (case sentiment_score_metric add_reduce r' of
              Inl e \<Rightarrow> [] | Inr s \<Rightarrow> metric_values ''Sentiment Score'' [s])"
    unfolding el using chart_kind [OF assms(4)]
    by (auto simp: a w split: sum.splits)
  show "c \<in> set (elements (main_body add_reduce ev t))"
    unfolding el by simp
qed

lemma page_absent:
  assumes "games t = None"
  shows "metric_values l (elements (main_body add_reduce ev t)) = []"
    and "charts (elements (main_body add_reduce ev t)) = []"
  using assms by (simp_all add: main_body_no_games)

lemma sentiment_after_bucket:
  assumes "playtime_distribution r = Inr (c, r')"
  shows "sentiment_score_metric add_reduce r' = sentiment_score_metric add_reduce r"
proof -
  from playtime_distribution_after [OF assms] show ?thesis
  proof
    assume "r' = r"
    then show ?thesis by simp
  next
    assume "\<exists>df xs. r = Some df \<and> map_of (columns df) ''playtime_hours'' = Some (Numeric xs) \<and>
            r' = Some (setitem df ''playtime_bin''
                         (Categorical \<lparr>categories = playtime_labels,
                                       codes = map playtime_label xs\<rparr>))"
    then show ?thesis
      by (auto simp: sentiment_score_metric_def setitem_def update_conv' split: option.splits)
  qed
qed

lemma steps_before_sentiment:
  assumes "numeric_or_absent (column_of r ''playtime_hours'')"
  shows "\<exists>a c r'. avg_playtime_metric add_reduce r = Inr a \<and>
           playtime_distribution r = Inr (c, r')"
proof (cases "column_of r ''playtime_hours''")
  case None
  then show ?thesis
    by (cases r) (auto simp: avg_playtime_metric_def playtime_distribution_def column_of_def)
next
  case (Some col)
  with assms obtain xs where xs: "column_of r ''playtime_hours'' = Some (Numeric xs)"
    by (cases col) (auto simp: numeric_or_absent_def)
  then obtain df where df: "r = Some df" "map_of (columns df) ''playtime_hours'' = Some (Numeric xs)"
    by (cases r) (auto simp: column_of_def)
  from avg_playtime_numeric [OF xs] playtime_distribution_numeric [OF df(2)] df(1)
  show ?thesis by auto
qed

lemma page_sentiment:
  assumes "games t \<noteq> None" and "\<not> refresh_clicked ev"
    and "numeric_or_absent (column_of (reviews t) ''playtime_hours'')"
    and "sentiment_score_metric add_reduce (reviews t) = Inr (Metric ''Sentiment Score'' v)"
  shows "metric_values ''Sentiment Score'' (elements (main_body add_reduce ev t)) = [v]"
proof -
  from steps_before_sentiment [OF assms(3)] obtain a c r'
    where a: "avg_playtime_metric add_reduce (reviews t) = Inr a"
      and c: "playtime_distribution (reviews t) = Inr (c, r')" by blast
  show ?thesis
    by (simp add: page_after_avg(3) [OF assms(1,2) a c] sentiment_after_bucket [OF c] assms(4))
qed

lemma page_active:
  assumes "games t \<noteq> None" and "\<not> refresh_clicked ev"
    and "numeric_or_absent (column_of (reviews t) ''playtime_hours'')"
    and "active_players_metric (logs t) = Metric ''Active Players'' v"
  shows "metric_values ''Active Players'' (elements (main_body add_reduce ev t)) = [v]"
proof -
  from steps_before_sentiment [OF assms(3)] obtain a c r'
    where a: "avg_playtime_metric add_reduce (reviews t) = Inr a"
      and c: "playtime_distribution (reviews t) = Inr (c, r')" by blast
  show ?thesis
    by (simp add: page_after_avg(2) [OF assms(1,2) a c] assms(4))
qed

lemma fillna0_whole: "whole_numbers xs \<Longrightarrow> fillna0 xs = xs"
  by (induction xs) (auto simp: fillna0_def)

lemma present_whole: "whole_numbers xs \<Longrightarrow> filter (\<lambda>x. \<not> isna x) xs = xs"
  by (induction xs) auto

lemma whole_numbers_numeral [simp]:
  "\<exists>k. 0 \<le> k \<and> Fin (numeral n) = Fin (of_int k)"
  "\<exists>k. 0 \<le> k \<and> Fin 0 = Fin (of_int k)"
  "\<exists>k. 0 \<le> k \<and> Fin 1 = Fin (of_int k)"
proof -
  show "\<exists>k. 0 \<le> k \<and> Fin (numeral n) = Fin (of_int k)"
    by (rule exI [of _ "numeral n"]) simp
  show "\<exists>k. 0 \<le> k \<and> Fin 0 = Fin (of_int k)"
    by (rule exI [of _ 0]) simp
  show "\<exists>k. 0 \<le> k \<and> Fin 1 = Fin (of_int k)"
    by (rule exI [of _ 1]) simp
qed

subsection \<open>Average playtime\<close>

text \<open>
  C5, as the code has it.  On the page of a run with the games table present (and the
  refresh button not pressed): if the reviews table has a numeric column
  \<^verbatim>\<open>playtime_hours\<close>, the metric ``Avg Playtime'' shows its mean, written with one
  decimal and the suffix ``h'': a sum \<open>h\<close> of the entries (missing ones counted as
  zero) in binary64, divided by the number of entries present, NaN when none is
  present; for whole numbers adding up to less than \<open>2^53\<close> the sum is the exact one.
  If the reviews table is absent or lacks the column, the metric shows ``N/A''.  When
  the games table is absent, as it is whenever the loader has failed, there is no
  such metric on the page.
\<close>

theorem avg_playtime:
  "(games t \<noteq> None \<and> \<not> refresh_clicked ev \<and> reduction add_reduce \<and>
    column_of (reviews t) ''playtime_hours'' = Some (Numeric xs) \<longrightarrow>
      (\<exists>h. sums_to (fillna0 xs) h \<and>
         metric_values ''Avg Playtime'' (elements (main_body add_reduce ev t)) =
           [format_1f (if 0 < length (filter (\<lambda>x. \<not> isna x) xs)
                       then fdiv h (round_f64 (of_nat (length (filter (\<lambda>x. \<not> isna x) xs))))
                       else NaN) @ ''h''])) \<and>
   (games t \<noteq> None \<and> \<not> refresh_clicked ev \<and> reduction add_reduce \<and>
    column_of (reviews t) ''playtime_hours'' = Some (Numeric xs) \<and>
    xs \<noteq> [] \<and> whole_numbers xs \<and> sum_list (map the_rat xs) < 2 ^ 53 \<longrightarrow>
      metric_values ''Avg Playtime'' (elements (main_body add_reduce ev t)) =
        [format_1f (fdiv (Fin (sum_list (map the_rat xs))) (round_f64 (of_nat (length xs))))
         @ ''h'']) \<and>
   (games t \<noteq> None \<and> \<not> refresh_clicked ev \<and>
    (reviews t = None \<or> (\<exists>d. reviews t = Some d \<and> \<not> has_column d ''playtime_hours'')) \<longrightarrow>
      metric_values ''Avg Playtime'' (elements (main_body add_reduce ev t)) = [''N/A'']) \<and>
   (games t = None \<longrightarrow>
      metric_values ''Avg Playtime'' (elements (main_body add_reduce ev t)) = [])"
proof (intro conjI impI)
  assume a: "games t \<noteq> None \<and> \<not> refresh_clicked ev \<and> reduction add_reduce \<and>
    column_of (reviews t) ''playtime_hours'' = Some (Numeric xs)"
  then have "sums_to (fillna0 xs) (add_reduce (fillna0 xs))"
    by (simp add: reduction_def)
  moreover from a have "metric_values ''Avg Playtime'' (elements (main_body add_reduce ev t)) =
           [format_1f (if 0 < length (filter (\<lambda>x. \<not> isna x) xs)
                       then fdiv (add_reduce (fillna0 xs))
                              (round_f64 (of_nat (length (filter (\<lambda>x. \<not> isna x) xs))))
                       else NaN) @ ''h'']"
    by (intro page_avg avg_playtime_numeric) simp_all
  ultimately show "\<exists>h. sums_to (fillna0 xs) h \<and>
         metric_values ''Avg Playtime'' (elements (main_body add_reduce ev t)) =
           [format_1f (if 0 < length (filter (\<lambda>x. \<not> isna x) xs)
                       then fdiv h (round_f64 (of_nat (length (filter (\<lambda>x. \<not> isna x) xs))))
                       else NaN) @ ''h'']"
    by blast
next
  assume a: "games t \<noteq> None \<and> \<not> refresh_clicked ev \<and> reduction add_reduce \<and>
    column_of (reviews t) ''playtime_hours'' = Some (Numeric xs) \<and>
    xs \<noteq> [] \<and> whole_numbers xs \<and> sum_list (map the_rat xs) < 2 ^ 53"
  then have "sums_to xs (add_reduce xs)" by (simp add: reduction_def)
  with a have s: "add_reduce xs = Fin (sum_list (map the_rat xs))"
    by (intro sums_to_exact) simp_all
  from a have "metric_values ''Avg Playtime'' (elements (main_body add_reduce ev t)) =
           [format_1f (if 0 < length (filter (\<lambda>x. \<not> isna x) xs)
                       then fdiv (add_reduce (fillna0 xs))
                              (round_f64 (of_nat (length (filter (\<lambda>x. \<not> isna x) xs))))
                       else NaN) @ ''h'']"
    by (intro page_avg avg_playtime_numeric) simp_all
  with a s show "metric_values ''Avg Playtime'' (elements (main_body add_reduce ev t)) =
        [format_1f (fdiv (Fin (sum_list (map the_rat xs))) (round_f64 (of_nat (length xs))))
         @ ''h'']"
    by (simp add: fillna0_whole present_whole)
next
  assume a: "games t \<noteq> None \<and> \<not> refresh_clicked ev \<and>
    (reviews t = None \<or> (\<exists>d. reviews t = Some d \<and> \<not> has_column d ''playtime_hours''))"
  then have "column_of (reviews t) ''playtime_hours'' = None"
    by (auto simp: column_of_def has_column_def)
  then have "avg_playtime_metric add_reduce (reviews t) = Inr (Metric ''Avg Playtime'' ''N/A'')"
    by (simp add: avg_playtime_metric_def)
  with a show "metric_values ''Avg Playtime'' (elements (main_body add_reduce ev t)) = [''N/A'']"
    by (intro page_avg) simp_all
next
  assume "games t = None"
  then show "metric_values ''Avg Playtime'' (elements (main_body add_reduce ev t)) = []"
    by (rule page_absent)
qed

theorem avg_playtime_witness:
  "games tables_example \<noteq> None \<and> \<not> refresh_clicked env_example \<and>
   reduction sequential_sum \<and>
   column_of (reviews tables_example) ''playtime_hours'' =
     Some (Numeric [Fin 5, Fin 15, Fin 60, Fin 150]) \<and>
   whole_numbers [Fin 5, Fin 15, Fin 60, Fin 150] \<and>
   sum_list (map the_rat [Fin 5, Fin 15, Fin 60, Fin 150]) < 2 ^ 53 \<and>
   metric_values ''Avg Playtime'' (elements (main_body sequential_sum env_example tables_example)) =
     [''57.5h''] \<and>
   games tables_bare \<noteq> None \<and> \<not> has_column reviews_bare ''playtime_hours'' \<and>
   metric_values ''Avg Playtime'' (elements (main_body sequential_sum env_example tables_bare)) =
     [''N/A''] \<and>
   games tables_absent = None \<and>
   metric_values ''Avg Playtime'' (elements (main_body sequential_sum env_example tables_absent)) =
     []"
proof -
  have c: "column_of (reviews tables_example) ''playtime_hours'' =
             Some (Numeric [Fin 5, Fin 15, Fin 60, Fin 150])"
    by (simp add: tables_example_def column_of_def reviews_example_def)
  have g: "games tables_example \<noteq> None" "games tables_bare \<noteq> None" "games tables_absent = None"
    "\<not> refresh_clicked env_example"
    by (simp_all add: tables_example_def tables_bare_def tables_absent_def env_example_def)
  have b: "reviews tables_bare = Some reviews_bare" "\<not> has_column reviews_bare ''playtime_hours''"
    by (simp_all add: tables_bare_def has_column_def reviews_bare_def)
  have w: "whole_numbers [Fin 5, Fin 15, Fin 60, Fin 150]"
    "sum_list (map the_rat [Fin 5, Fin 15, Fin 60, Fin 150]) = 230"
    by simp_all
  from avg_playtime [of tables_example env_example sequential_sum "[Fin 5, Fin 15, Fin 60, Fin 150]"]
    g c w reduction_sequential_sum
  have 1: "metric_values ''Avg Playtime''
             (elements (main_body sequential_sum env_example tables_example)) = [''57.5h'']"
    by (simp add: mean_230_4)
  from avg_playtime [of tables_bare env_example sequential_sum "[]"] g b
  have 2: "metric_values ''Avg Playtime''
             (elements (main_body sequential_sum env_example tables_bare)) = [''N/A'']"
    by simp
  from avg_playtime [of tables_absent env_example sequential_sum "[]"] g
  have 3: "metric_values ''Avg Playtime''
             (elements (main_body sequential_sum env_example tables_absent)) = []"
    by simp
  show ?thesis using 1 2 3 g c b w reduction_sequential_sum by simp
qed

lemma header_no_metric [simp]: "metric_values l header = []" "charts header = []"
  by (simp_all add: header_def)

text \<open>
  C5 as the specification words it fails in the run in which the reviews file is
  missing: the reviews table is absent, and the page has no ``Avg Playtime'' metric,
  so none that shows ``N/A''.
\<close>

theorem avg_playtime_absent_counterexample:
  "fst (main sequential_sum storage_missing env_example session_start) =
     Inr \<lparr>elements = header @ [Error ''Error loading data: No such file or directory'']
                     @ data_files_not_found,
          ending = Completed,
          after = \<lparr>games = None, reviews = None, logs = None\<rparr>\<rparr> \<and>
   metric_values ''Avg Playtime''
     (header @ [Error ''Error loading data: No such file or directory'']
      @ data_files_not_found) = []"
  by (simp add: main_after_failed_load)

subsection \<open>Sentiment score\<close>

lemma sentiment_missing_table:
  "sentiment_score_metric add_reduce None = Inr (Metric ''Sentiment Score'' ''N/A'')"
  by (simp add: sentiment_score_metric_def)

text \<open>
  C2, as the code has it.  On the page of a run with the games table present (the
  refresh button not pressed, and the playtime column, if any, numeric, so that the
  run reaches the metric): if the reviews table has numeric columns
  \<^verbatim>\<open>helpful_votes\<close> and \<^verbatim>\<open>total_votes\<close>, the metric ``Sentiment Score'' shows a sum
  of the first divided by a sum of the second, times \<open>100\<close>, in binary64, written with
  one decimal and a percent sign; for whole numbers the sums are the exact ones, and
  votes that sum to \<open>80\<close> and \<open>100\<close> show ``80.0%''.  If the table lacks one of the
  two columns the metric shows ``62.4%''; if the reviews table is absent it shows
  ``N/A''.  When the games table is absent, as it is whenever the loader has failed,
  there is no such metric on the page.
\<close>

theorem sentiment_score:
  "(games t \<noteq> None \<and> \<not> refresh_clicked ev \<and> reduction add_reduce \<and> reviews t = Some df \<and>
    numeric_or_absent (map_of (columns df) ''playtime_hours'') \<and>
    map_of (columns df) ''helpful_votes'' = Some (Numeric hs) \<and>
    map_of (columns df) ''total_votes'' = Some (Numeric ts) \<longrightarrow>
      (\<exists>h s. sums_to (fillna0 hs) h \<and> sums_to (fillna0 ts) s \<and>
         metric_values ''Sentiment Score'' (elements (main_body add_reduce ev t)) =
           [format_1f (fmul (fdiv h s) (Fin 100)) @ ''%''])) \<and>
   (games t \<noteq> None \<and> \<not> refresh_clicked ev \<and> reduction add_reduce \<and> reviews t = Some df \<and>
    numeric_or_absent (map_of (columns df) ''playtime_hours'') \<and>
    map_of (columns df) ''helpful_votes'' = Some (Numeric hs) \<and>
    map_of (columns df) ''total_votes'' = Some (Numeric ts) \<and>
    whole_numbers hs \<and> whole_numbers ts \<and>
    sum_list (map the_rat hs) < 2 ^ 53 \<and> sum_list (map the_rat ts) < 2 ^ 53 \<longrightarrow>
      metric_values ''Sentiment Score'' (elements (main_body add_reduce ev t)) =
        [format_1f (fmul (fdiv (Fin (sum_list (map the_rat hs))) (Fin (sum_list (map the_rat ts))))
                         (Fin 100)) @ ''%'']) \<and>
   (games t \<noteq> None \<and> \<not> refresh_clicked ev \<and> reduction add_reduce \<and> reviews t = Some df \<and>
    numeric_or_absent (map_of (columns df) ''playtime_hours'') \<and>
    map_of (columns df) ''helpful_votes'' = Some (Numeric hs) \<and>
    map_of (columns df) ''total_votes'' = Some (Numeric ts) \<and>
    whole_numbers hs \<and> whole_numbers ts \<and>
    sum_list (map the_rat hs) = 80 \<and> sum_list (map the_rat ts) = 100 \<longrightarrow>
      metric_values ''Sentiment Score'' (elements (main_body add_reduce ev t)) = [''80.0%'']) \<and>
   (games t \<noteq> None \<and> \<not> refresh_clicked ev \<and> reviews t = Some df \<and>
    numeric_or_absent (map_of (columns df) ''playtime_hours'') \<and>
    (\<not> has_column df ''helpful_votes'' \<or> \<not> has_column df ''total_votes'') \<longrightarrow>
      metric_values ''Sentiment Score'' (elements (main_body add_reduce ev t)) = [''62.4%'']) \<and>
   (games t \<noteq> None \<and> \<not> refresh_clicked ev \<and> reviews t = None \<longrightarrow>
      metric_values ''Sentiment Score'' (elements (main_body add_reduce ev t)) = [''N/A'']) \<and>
   (games t = None \<longrightarrow>
      metric_values ''Sentiment Score'' (elements (main_body add_reduce ev t)) = [])"
proof -
  have shown: "metric_values ''Sentiment Score'' (elements (main_body add_reduce ev t)) =
      [format_1f (fmul (fdiv (add_reduce (fillna0 hs)) (add_reduce (fillna0 ts))) (Fin 100)) @ ''%'']"
    if "games t \<noteq> None" "\<not> refresh_clicked ev" "reviews t = Some df"
      "numeric_or_absent (map_of (columns df) ''playtime_hours'')"
      "map_of (columns df) ''helpful_votes'' = Some (Numeric hs)"
      "map_of (columns df) ''total_votes'' = Some (Numeric ts)"
  proof (rule page_sentiment [OF that(1,2)])
    show "numeric_or_absent (column_of (reviews t) ''playtime_hours'')"
      using that(3,4) by (simp add: column_of_def)
    show "sentiment_score_metric add_reduce (reviews t) =
        Inr (Metric ''Sentiment Score''
              (format_1f (fmul (fdiv (add_reduce (fillna0 hs)) (add_reduce (fillna0 ts)))
                               (Fin 100)) @ ''%''))"
      using that(3) sentiment_numeric [OF that(5,6)] by simp
  qed
  have exact: "metric_values ''Sentiment Score'' (elements (main_body add_reduce ev t)) =
      [format_1f (fmul (fdiv (Fin (sum_list (map the_rat hs))) (Fin (sum_list (map the_rat ts))))
                       (Fin 100)) @ ''%'']"
    if "games t \<noteq> None" "\<not> refresh_clicked ev" "reviews t = Some df"
      "numeric_or_absent (map_of (columns df) ''playtime_hours'')"
      "map_of (columns df) ''helpful_votes'' = Some (Numeric hs)"
      "map_of (columns df) ''total_votes'' = Some (Numeric ts)"
      "reduction add_reduce" "whole_numbers hs" "whole_numbers ts"
      "sum_list (map the_rat hs) < 2 ^ 53" "sum_list (map the_rat ts) < 2 ^ 53"
  proof -
    from that(7) have "sums_to hs (add_reduce hs)" "sums_to ts (add_reduce ts)"
      by (simp_all add: reduction_def)
    then have "add_reduce hs = Fin (sum_list (map the_rat hs))"
      "add_reduce ts = Fin (sum_list (map the_rat ts))"
      using that(8-11) by (simp_all add: sums_to_exact)
    with shown [OF that(1-6)] that(8,9) show ?thesis
      by (simp add: fillna0_whole)
  qed
  show ?thesis
  proof (intro conjI impI)
    assume a: "games t \<noteq> None \<and> \<not> refresh_clicked ev \<and> reduction add_reduce \<and>
      reviews t = Some df \<and> numeric_or_absent (map_of (columns df) ''playtime_hours'') \<and>
      map_of (columns df) ''helpful_votes'' = Some (Numeric hs) \<and>
      map_of (columns df) ''total_votes'' = Some (Numeric ts)"
    then have "sums_to (fillna0 hs) (add_reduce (fillna0 hs))"
      "sums_to (fillna0 ts) (add_reduce (fillna0 ts))"
      by (simp_all add: reduction_def)
    moreover from a have "metric_values ''Sentiment Score'' (elements (main_body add_reduce ev t)) =
      [format_1f (fmul (fdiv (add_reduce (fillna0 hs)) (add_reduce (fillna0 ts))) (Fin 100)) @ ''%'']"
      by (intro shown) simp_all
    ultimately show "\<exists>h s. sums_to (fillna0 hs) h \<and> sums_to (fillna0 ts) s \<and>
         metric_values ''Sentiment Score'' (elements (main_body add_reduce ev t)) =
           [format_1f (fmul (fdiv h s) (Fin 100)) @ ''%'']"
      by blast
  next
    assume "games t \<noteq> None \<and> \<not> refresh_clicked ev \<and> reduction add_reduce \<and>
      reviews t = Some df \<and> numeric_or_absent (map_of (columns df) ''playtime_hours'') \<and>
      map_of (columns df) ''helpful_votes'' = Some (Numeric hs) \<and>
      map_of (columns df) ''total_votes'' = Some (Numeric ts) \<and>
      whole_numbers hs \<and> whole_numbers ts \<and>
      sum_list (map the_rat hs) < 2 ^ 53 \<and> sum_list (map the_rat ts) < 2 ^ 53"
    then show "metric_values ''Sentiment Score'' (elements (main_body add_reduce ev t)) =
        [format_1f (fmul (fdiv (Fin (sum_list (map the_rat hs))) (Fin (sum_list (map the_rat ts))))
                         (Fin 100)) @ ''%'']"
      by (intro exact) simp_all
  next
    assume a: "games t \<noteq> None \<and> \<not> refresh_clicked ev \<and> reduction add_reduce \<and>
      reviews t = Some df \<and> numeric_or_absent (map_of (columns df) ''playtime_hours'') \<and>
      map_of (columns df) ''helpful_votes'' = Some (Numeric hs) \<and>
      map_of (columns df) ''total_votes'' = Some (Numeric ts) \<and>
      whole_numbers hs \<and> whole_numbers ts \<and>
      sum_list (map the_rat hs) = 80 \<and> sum_list (map the_rat ts) = 100"
    then have "metric_values ''Sentiment Score'' (elements (main_body add_reduce ev t)) =
        [format_1f (fmul (fdiv (Fin (sum_list (map the_rat hs))) (Fin (sum_list (map the_rat ts))))
                         (Fin 100)) @ ''%'']"
      by (intro exact) simp_all
    with a show "metric_values ''Sentiment Score'' (elements (main_body add_reduce ev t)) =
        [''80.0%'']"
      by (simp add: sentiment_80)
  next
    assume a: "games t \<noteq> None \<and> \<not> refresh_clicked ev \<and> reviews t = Some df \<and>
      numeric_or_absent (map_of (columns df) ''playtime_hours'') \<and>
      (\<not> has_column df ''helpful_votes'' \<or> \<not> has_column df ''total_votes'')"
    then have "sentiment_score_metric add_reduce (reviews t) =
        Inr (Metric ''Sentiment Score'' ''62.4%'')"
      by (simp add: sentiment_fallback)
    with a show "metric_values ''Sentiment Score'' (elements (main_body add_reduce ev t)) =
        [''62.4%'']"
      by (intro page_sentiment) (simp_all add: column_of_def)
  next
    assume a: "games t \<noteq> None \<and> \<not> refresh_clicked ev \<and> reviews t = None"
    then show "metric_values ''Sentiment Score'' (elements (main_body add_reduce ev t)) =
        [''N/A'']"
      by (intro page_sentiment)
         (simp_all add: column_of_def numeric_or_absent_def sentiment_missing_table)
  next
    assume "games t = None"
    then show "metric_values ''Sentiment Score'' (elements (main_body add_reduce ev t)) = []"
      by (rule page_absent)
  qed
qed

theorem sentiment_score_witness:
  "games tables_example \<noteq> None \<and> \<not> refresh_clicked env_example \<and>
   reduction sequential_sum \<and> reviews tables_example = Some reviews_example \<and>
   numeric_or_absent (map_of (columns reviews_example) ''playtime_hours'') \<and>
   map_of (columns reviews_example) ''helpful_votes'' = Some (Numeric [Fin 30, Fin 50, Fin 0, Fin 0]) \<and>
   map_of (columns reviews_example) ''total_votes'' = Some (Numeric [Fin 40, Fin 60, Fin 0, Fin 0]) \<and>
   whole_numbers [Fin 30, Fin 50, Fin 0, Fin 0] \<and> whole_numbers [Fin 40, Fin 60, Fin 0, Fin 0] \<and>
   sum_list (map the_rat [Fin 30, Fin 50, Fin 0, Fin 0]) = 80 \<and>
   sum_list (map the_rat [Fin 40, Fin 60, Fin 0, Fin 0]) = 100 \<and>
   metric_values ''Sentiment Score''
     (elements (main_body sequential_sum env_example tables_example)) = [''80.0%''] \<and>
   games tables_bare \<noteq> None \<and> reviews tables_bare = Some reviews_bare \<and>
   numeric_or_absent (map_of (columns reviews_bare) ''playtime_hours'') \<and>
   \<not> has_column reviews_bare ''helpful_votes'' \<and>
   metric_values ''Sentiment Score''
     (elements (main_body sequential_sum env_example tables_bare)) = [''62.4%''] \<and>
   games tables_games_only \<noteq> None \<and> reviews tables_games_only = None \<and>
   metric_values ''Sentiment Score''
     (elements (main_body sequential_sum env_example tables_games_only)) = [''N/A''] \<and>
   games tables_absent = None \<and>
   metric_values ''Sentiment Score''
     (elements (main_body sequential_sum env_example tables_absent)) = []"
proof -
  have g: "games tables_example \<noteq> None" "games tables_bare \<noteq> None"
    "games tables_games_only \<noteq> None" "games tables_absent = None"
    "\<not> refresh_clicked env_example"
    "reviews tables_example = Some reviews_example" "reviews tables_bare = Some reviews_bare"
    "reviews tables_games_only = None"
    by (simp_all add: tables_example_def tables_bare_def tables_games_only_def tables_absent_def
          env_example_def)
  have c: "numeric_or_absent (map_of (columns reviews_example) ''playtime_hours'')"
    "map_of (columns reviews_example) ''helpful_votes'' = Some (Numeric [Fin 30, Fin 50, Fin 0, Fin 0])"
    "map_of (columns reviews_example) ''total_votes'' = Some (Numeric [Fin 40, Fin 60, Fin 0, Fin 0])"
    "numeric_or_absent (map_of (columns reviews_bare) ''playtime_hours'')"
    "\<not> has_column reviews_bare ''helpful_votes''"
    by (simp_all add: reviews_example_def reviews_bare_def numeric_or_absent_def has_column_def)
  have w: "whole_numbers [Fin 30, Fin 50, Fin 0, Fin 0]" "whole_numbers [Fin 40, Fin 60, Fin 0, Fin 0]"
    "sum_list (map the_rat [Fin 30, Fin 50, Fin 0, Fin 0]) = 80"
    "sum_list (map the_rat [Fin 40, Fin 60, Fin 0, Fin 0]) = 100"
    by simp_all
  from sentiment_score [of tables_example env_example sequential_sum reviews_example
         "[Fin 30, Fin 50, Fin 0, Fin 0]" "[Fin 40, Fin 60, Fin 0, Fin 0]"]
    g c w reduction_sequential_sum
  have 1: "metric_values ''Sentiment Score''
     (elements (main_body sequential_sum env_example tables_example)) = [''80.0%'']"
    by (simp add: sentiment_80)
  from sentiment_score [of tables_bare env_example sequential_sum reviews_bare "[]" "[]"] g c
  have 2: "metric_values ''Sentiment Score''
     (elements (main_body sequential_sum env_example tables_bare)) = [''62.4%'']"
    by simp
  from sentiment_score [of tables_games_only env_example sequential_sum reviews_bare "[]" "[]"] g
  have 3: "metric_values ''Sentiment Score''
     (elements (main_body sequential_sum env_example tables_games_only)) = [''N/A'']"
    by simp
  from sentiment_score [of tables_absent env_example sequential_sum reviews_bare "[]" "[]"] g
  have 4: "metric_values ''Sentiment Score''
     (elements (main_body sequential_sum env_example tables_absent)) = []"
    by simp
  show ?thesis using 1 2 3 4 g c w reduction_sequential_sum by simp
qed

text \<open>
  C2 as the specification words it fails in the run in which the reviews file is
  missing: the reviews table is absent, and the page has no ``Sentiment Score''
  metric, so none that shows ``N/A''.
\<close>

theorem sentiment_absent_counterexample:
  "fst (main sequential_sum storage_missing env_example session_start) =
     Inr \<lparr>elements = header @ [Error ''Error loading data: No such file or directory'']
                     @ data_files_not_found,
          ending = Completed,
          after = \<lparr>games = None, reviews = None, logs = None\<rparr>\<rparr> \<and>
   metric_values ''Sentiment Score''
     (header @ [Error ''Error loading data: No such file or directory'']
      @ data_files_not_found) = []"
  by (simp add: main_after_failed_load)

subsection \<open>Active players\<close>

lemma active_missing:
  "logs_df = None \<or> (\<exists>d. logs_df = Some d \<and> \<not> has_column d ''player_id'') \<Longrightarrow>
     active_players_metric logs_df = Metric ''Active Players'' ''N/A''"
  by (auto simp: active_players_metric_def column_of_def has_column_def)

text \<open>
  C7, as the code has it.  On the page of a run with the games table present (the
  refresh button not pressed, and the playtime column, if any, numeric, so that the
  run reaches the metric): if the logs table has a \<^verbatim>\<open>player_id\<close> column, the metric
  ``Active Players'' shows the number of distinct entries of that column (missing
  entries are not entries), written with thousands separators; for the entries
  \<open>1, 1, 2, 3\<close> it shows \<open>3\<close>.  If the logs table is absent or has no such column,
  the metric shows ``N/A''.  When the games table is absent, as it is whenever the
  loader has failed, there is no such metric on the page.
\<close>

theorem active_players:
  "(games t \<noteq> None \<and> \<not> refresh_clicked ev \<and>
    numeric_or_absent (column_of (reviews t) ''playtime_hours'') \<and>
    column_of (logs t) ''player_id'' = Some (Numeric xs) \<longrightarrow>
      metric_values ''Active Players'' (elements (main_body add_reduce ev t)) =
        [format_comma (int (card (present_numbers xs)))]) \<and>
   (games t \<noteq> None \<and> \<not> refresh_clicked ev \<and>
    numeric_or_absent (column_of (reviews t) ''playtime_hours'') \<and>
    column_of (logs t) ''player_id'' = Some (Categorical k) \<longrightarrow>
      metric_values ''Active Players'' (elements (main_body add_reduce ev t)) =
        [format_comma (int (card (present_labels (codes k))))]) \<and>
   (games t \<noteq> None \<and> \<not> refresh_clicked ev \<and>
    numeric_or_absent (column_of (reviews t) ''playtime_hours'') \<and>
    column_of (logs t) ''player_id'' = Some (Numeric [Fin 1, Fin 1, Fin 2, Fin 3]) \<longrightarrow>
      metric_values ''Active Players'' (elements (main_body add_reduce ev t)) = [''3'']) \<and>
   (games t \<noteq> None \<and> \<not> refresh_clicked ev \<and>
    numeric_or_absent (column_of (reviews t) ''playtime_hours'') \<and>
    (logs t = None \<or> (\<exists>d. logs t = Some d \<and> \<not> has_column d ''player_id'')) \<longrightarrow>
      metric_values ''Active Players'' (elements (main_body add_reduce ev t)) = [''N/A'']) \<and>
   (games t = None \<longrightarrow>
      metric_values ''Active Players'' (elements (main_body add_reduce ev t)) = [])"
proof (intro conjI impI)
  assume "games t \<noteq> None \<and> \<not> refresh_clicked ev \<and>
    numeric_or_absent (column_of (reviews t) ''playtime_hours'') \<and>
    column_of (logs t) ''player_id'' = Some (Numeric xs)"
  then show "metric_values ''Active Players'' (elements (main_body add_reduce ev t)) =
        [format_comma (int (card (present_numbers xs)))]"
    by (intro page_active) (simp_all add: active_players_metric_def nunique_Numeric)
next
  assume "games t \<noteq> None \<and> \<not> refresh_clicked ev \<and>
    numeric_or_absent (column_of (reviews t) ''playtime_hours'') \<and>
    column_of (logs t) ''player_id'' = Some (Categorical k)"
  then show "metric_values ''Active Players'' (elements (main_body add_reduce ev t)) =
        [format_comma (int (card (present_labels (codes k))))]"
    by (intro page_active) (simp_all add: active_players_metric_def nunique_Categorical)
next
  assume "games t \<noteq> None \<and> \<not> refresh_clicked ev \<and>
    numeric_or_absent (column_of (reviews t) ''playtime_hours'') \<and>
    column_of (logs t) ''player_id'' = Some (Numeric [Fin 1, Fin 1, Fin 2, Fin 3])"
  then show "metric_values ''Active Players'' (elements (main_body add_reduce ev t)) = [''3'']"
    by (intro page_active)
       (simp_all add: active_players_metric_def nunique_Numeric present_numbers_example
          format_comma_3)
next
  assume "games t \<noteq> None \<and> \<not> refresh_clicked ev \<and>
    numeric_or_absent (column_of (reviews t) ''playtime_hours'') \<and>
    (logs t = None \<or> (\<exists>d. logs t = Some d \<and> \<not> has_column d ''player_id''))"
  then show "metric_values ''Active Players'' (elements (main_body add_reduce ev t)) = [''N/A'']"
    by (intro page_active) (simp_all add: active_missing)
next
  assume "games t = None"
  then show "metric_values ''Active Players'' (elements (main_body add_reduce ev t)) = []"
    by (rule page_absent)
qed

theorem active_players_witness:
  "games tables_example \<noteq> None \<and> \<not> refresh_clicked env_example \<and>
   numeric_or_absent (column_of (reviews tables_example) ''playtime_hours'') \<and>
   column_of (logs tables_example) ''player_id'' = Some (Numeric [Fin 1, Fin 1, Fin 2, Fin 3]) \<and>
   metric_values ''Active Players''
     (elements (main_body sequential_sum env_example tables_example)) = [''3''] \<and>
   games tables_named \<noteq> None \<and>
   numeric_or_absent (column_of (reviews tables_named) ''playtime_hours'') \<and>
   column_of (logs tables_named) ''player_id'' =
     Some (Categorical \<lparr>categories = [''ann'', ''bob'', ''cy''],
                         codes = [Some ''ann'', Some ''bob'', None, Some ''ann'']\<rparr>) \<and>
   metric_values ''Active Players''
     (elements (main_body sequential_sum env_example tables_named)) = [''2''] \<and>
   games tables_bare \<noteq> None \<and>
   numeric_or_absent (column_of (reviews tables_bare) ''playtime_hours'') \<and>
   logs tables_bare = Some reviews_bare \<and> \<not> has_column reviews_bare ''player_id'' \<and>
   metric_values ''Active Players''
     (elements (main_body sequential_sum env_example tables_bare)) = [''N/A''] \<and>
   games tables_games_only \<noteq> None \<and>
   numeric_or_absent (column_of (reviews tables_games_only) ''playtime_hours'') \<and>
   logs tables_games_only = None \<and>
   metric_values ''Active Players''
     (elements (main_body sequential_sum env_example tables_games_only)) = [''N/A''] \<and>
   games tables_absent = None \<and>
   metric_values ''Active Players''
     (elements (main_body sequential_sum env_example tables_absent)) = []"
proof -
  have g: "games tables_example \<noteq> None" "games tables_named \<noteq> None" "games tables_bare \<noteq> None"
    "games tables_games_only \<noteq> None" "games tables_absent = None"
    "\<not> refresh_clicked env_example"
    by (simp_all add: tables_example_def tables_named_def tables_bare_def tables_games_only_def
          tables_absent_def env_example_def)
  have n: "numeric_or_absent (column_of (reviews tables_example) ''playtime_hours'')"
    "numeric_or_absent (column_of (reviews tables_named) ''playtime_hours'')"
    "numeric_or_absent (column_of (reviews tables_bare) ''playtime_hours'')"
    "numeric_or_absent (column_of (reviews tables_games_only) ''playtime_hours'')"
    by (simp_all add: tables_example_def tables_named_def tables_bare_def tables_games_only_def
          column_of_def numeric_or_absent_def reviews_example_def reviews_bare_def)
  have c: "column_of (logs tables_example) ''player_id'' =
             Some (Numeric [Fin 1, Fin 1, Fin 2, Fin 3])"
    "column_of (logs tables_named) ''player_id'' =
       Some (Categorical \<lparr>categories = [''ann'', ''bob'', ''cy''],
                           codes = [Some ''ann'', Some ''bob'', None, Some ''ann'']\<rparr>)"
    "logs tables_bare = Some reviews_bare" "\<not> has_column reviews_bare ''player_id''"
    "logs tables_games_only = None"
    by (simp_all add: tables_example_def tables_named_def tables_bare_def tables_games_only_def
          column_of_def logs_example_def logs_named_def reviews_bare_def has_column_def)
  from active_players [of tables_example env_example "[Fin 1, Fin 1, Fin 2, Fin 3]" sequential_sum]
    g n c
  have 1: "metric_values ''Active Players''
     (elements (main_body sequential_sum env_example tables_example)) = [''3'']"
    by (simp add: present_numbers_example format_comma_3)
  from active_players [of tables_named env_example "[]" sequential_sum
         "\<lparr>categories = [''ann'', ''bob'', ''cy''],
           codes = [Some ''ann'', Some ''bob'', None, Some ''ann'']\<rparr>"]
    g n c
  have 2: "metric_values ''Active Players''
     (elements (main_body sequential_sum env_example tables_named)) = [''2'']"
    by (simp add: present_labels_example format_comma_2)
  from active_players [of tables_bare env_example "[]" sequential_sum] g n c
  have 3: "metric_values ''Active Players''
     (elements (main_body sequential_sum env_example tables_bare)) = [''N/A'']"
    by simp
  from active_players [of tables_games_only env_example "[]" sequential_sum] g n c
  have 4: "metric_values ''Active Players''
     (elements (main_body sequential_sum env_example tables_games_only)) = [''N/A'']"
    by simp
  from active_players [of tables_absent env_example "[]" sequential_sum] g
  have 5: "metric_values ''Active Players''
     (elements (main_body sequential_sum env_example tables_absent)) = []"
    by simp
  show ?thesis using 1 2 3 4 5 g n c by simp
qed

text \<open>
  C7 as the specification words it fails in the run in which the reviews file is
  missing: the loader returns no table, so the logs table is absent, and the page has
  no ``Active Players'' metric, so none that shows ``N/A''.
\<close>

theorem active_players_absent_counterexample:
  "fst (main sequential_sum storage_missing env_example session_start) =
     Inr \<lparr>elements = header @ [Error ''Error loading data: No such file or directory'']
                     @ data_files_not_found,
          ending = Completed,
          after = \<lparr>games = None, reviews = None, logs = None\<rparr>\<rparr> \<and>
   metric_values ''Active Players''
     (header @ [Error ''Error loading data: No such file or directory'']
      @ data_files_not_found) = []"
  by (simp add: main_after_failed_load)

subsection \<open>Playtime histogram\<close>



end
